theory Spec2Isabelle
  imports Main "HOL-Library.AList"
begin

section \<open>Python strings\<close>

text \<open>
  The script \<^verbatim>\<open>scripts/aws_sso.py\<close> works on Python \<^verbatim>\<open>str\<close> values. A \<^typ>\<open>char\<close> of this
  development is the Unicode code point of the same number, so the model covers text
  whose code points are below 256. The string methods below are those of Python 3.11,
  on that range.
\<close>

abbreviation LF :: char where "LF \<equiv> CHR 0x0A"
abbreviation CR :: char where "CR \<equiv> CHR 0x0D"
abbreviation DQUOTE :: char where "DQUOTE \<equiv> CHR 0x22"
abbreviation SQUOTE :: char where "SQUOTE \<equiv> CHR 0x27"
abbreviation BACKSLASH :: char where "BACKSLASH \<equiv> CHR 0x5C"

definition ord :: "char \<Rightarrow> nat" where
  "ord c = of_char c"

text \<open>\<^verbatim>\<open>str.isspace\<close> of one character, which is also the class \<^verbatim>\<open>\s\<close> of \<^verbatim>\<open>re\<close>.\<close>

definition isspace :: "char \<Rightarrow> bool" where
  "isspace c \<longleftrightarrow>
     (9 \<le> ord c \<and> ord c \<le> 13) \<or> (28 \<le> ord c \<and> ord c \<le> 32) \<or> ord c = 133 \<or> ord c = 160"

definition lstrip :: "string \<Rightarrow> string" where
  "lstrip s = dropWhile isspace s"

definition rstrip :: "string \<Rightarrow> string" where
  "rstrip s = rev (dropWhile isspace (rev s))"

definition strip :: "string \<Rightarrow> string" where
  "strip s = lstrip (rstrip s)"

definition startswith :: "string \<Rightarrow> string \<Rightarrow> bool" where
  "startswith s p \<longleftrightarrow> take (length p) s = p"

text \<open>\<^verbatim>\<open>str.lower\<close>: the letters A to Z and the capital letters of Latin-1.\<close>

definition lower_char :: "char \<Rightarrow> char" where
  "lower_char c =
     (if (65 \<le> ord c \<and> ord c \<le> 90) \<or> (192 \<le> ord c \<and> ord c \<le> 222 \<and> ord c \<noteq> 215)
      then char_of (ord c + 32) else c)"

definition lower :: "string \<Rightarrow> string" where
  "lower s = map lower_char s"

text \<open>\<^verbatim>\<open>sep.join(parts)\<close>.\<close>

fun join :: "string \<Rightarrow> string list \<Rightarrow> string" where
  "join sep [] = []"
| "join sep [x] = x"
| "join sep (x # y # ys) = x @ sep @ join sep (y # ys)"

subsection \<open>Formatting: \<^verbatim>\<open>%d\<close>, \<^verbatim>\<open>{0:2d}\<close>, \<^verbatim>\<open>{0:04x}\<close> and \<^verbatim>\<open>repr\<close>\<close>

definition digit_char :: "nat \<Rightarrow> char" where
  "digit_char d = ''0123456789abcdef'' ! d"

fun str_nat :: "nat \<Rightarrow> string" where
  "str_nat n = (if n < 10 then [digit_char n] else str_nat (n div 10) @ [digit_char (n mod 10)])"

declare str_nat.simps [simp del]

definition format_2d :: "nat \<Rightarrow> string" where
  "format_2d n = replicate (2 - length (str_nat n)) CHR '' '' @ str_nat n"

definition hex2 :: "nat \<Rightarrow> string" where
  "hex2 n = [digit_char (n div 16), digit_char (n mod 16)]"

definition isprintable :: "char \<Rightarrow> bool" where
  "isprintable c \<longleftrightarrow> \<not> (ord c < 32 \<or> (127 \<le> ord c \<and> ord c \<le> 160) \<or> ord c = 173)"

definition repr_char :: "char \<Rightarrow> char \<Rightarrow> string" where
  "repr_char quote c =
     (if c = quote \<or> c = BACKSLASH then [BACKSLASH, c]
      else if c = CHR 0x09 then [BACKSLASH, CHR ''t'']
      else if c = LF then [BACKSLASH, CHR ''n'']
      else if c = CR then [BACKSLASH, CHR ''r'']
      else if ord c < 32 \<or> ord c = 127 then [BACKSLASH, CHR ''x''] @ hex2 (ord c)
      else if ord c < 127 then [c]
      else if \<not> isprintable c then [BACKSLASH, CHR ''x''] @ hex2 (ord c)
      else [c])"

definition repr :: "string \<Rightarrow> string" where
  "repr s =
     (let quote = (if SQUOTE \<in> set s \<and> DQUOTE \<notin> set s then DQUOTE else SQUOTE)
      in [quote] @ concat (map (repr_char quote) s) @ [quote])"

section \<open>The standard library's \<^verbatim>\<open>configparser\<close>\<close>

text \<open>
  The script creates \<^verbatim>\<open>configparser.ConfigParser()\<close> with no argument: delimiters
  \<^verbatim>\<open>=\<close> and \<^verbatim>\<open>:\<close>, full-line comment prefixes \<^verbatim>\<open>#\<close> and \<^verbatim>\<open>;\<close>, no inline comments,
  \<^verbatim>\<open>strict=True\<close>, \<^verbatim>\<open>allow_no_value=False\<close>, \<^verbatim>\<open>empty_lines_in_values=True\<close>, the default
  section \<^verbatim>\<open>DEFAULT\<close> and \<^verbatim>\<open>BasicInterpolation\<close>. The definitions of this section follow
  \<^verbatim>\<open>Lib/configparser.py\<close> of Python 3.11 under these settings.
\<close>

subsection \<open>Exceptions and their messages\<close>

datatype config_error =
    DuplicateSectionError string string nat  \<comment> \<open>section, source, lineno\<close>
  | DuplicateOptionError string string string nat  \<comment> \<open>section, option, source, lineno\<close>
  | MissingSectionHeaderError string nat string  \<comment> \<open>filename, lineno, line\<close>
  | ParsingError string "(nat \<times> string) list"  \<comment> \<open>source, errors\<close>
  | InterpolationMissingOptionError string string string string
      \<comment> \<open>option, section, rawval, reference\<close>
  | InterpolationSyntaxError string string string  \<comment> \<open>option, section, msg\<close>
  | InterpolationDepthError string string string  \<comment> \<open>option, section, rawval\<close>

text \<open>\<^verbatim>\<open>str(e)\<close>: the message each exception class builds in its constructor.\<close>

fun str_error :: "config_error \<Rightarrow> string" where
  "str_error (DuplicateSectionError section source lineno) =
     ''While reading from '' @ repr source @ '' [line '' @ format_2d lineno @ '']'' @
     '': section '' @ repr section @ '' already exists''"
| "str_error (DuplicateOptionError section option source lineno) =
     ''While reading from '' @ repr source @ '' [line '' @ format_2d lineno @ '']'' @
     '': option '' @ repr option @ '' in section '' @ repr section @ '' already exists''"
| "str_error (MissingSectionHeaderError filename lineno line) =
     ''File contains no section headers.'' @ [LF] @ ''file: '' @ repr filename @
     '', line: '' @ str_nat lineno @ [LF] @ repr line"
| "str_error (ParsingError source errors) =
     ''Source contains parsing errors: '' @ repr source @
     concat (map (\<lambda>(lineno, line).
       [LF, CHR 0x09] @ ''[line '' @ format_2d lineno @ '']: '' @ line) errors)"
| "str_error (InterpolationMissingOptionError option section rawval reference) =
     ''Bad value substitution: option '' @ repr option @ '' in section '' @ repr section @
     '' contains an interpolation key '' @ repr reference @
     '' which is not a valid option name. Raw value: '' @ repr rawval"
| "str_error (InterpolationSyntaxError option section msg) = msg"
| "str_error (InterpolationDepthError option section rawval) =
     ''Recursion limit exceeded in value substitution: option '' @ repr option @
     '' in section '' @ repr section @
     '' contains an interpolation key which cannot be substituted in 10 steps. Raw value: '' @
     repr rawval"

subsection \<open>The regular expressions of the parser\<close>

text \<open>
  \<^verbatim>\<open>SECTCRE.match(value)\<close>, the pattern \<^verbatim>\<open>\[(?P<header>.+)\]\<close> anchored at the start of a
  stripped line (which holds no newline): the line starts with an opening bracket and the
  greedy header runs to the last closing bracket, and is not empty.
\<close>

definition sect_header :: "string \<Rightarrow> string option" where
  "sect_header v =
     (case v of
        [] \<Rightarrow> None
      | c # cs \<Rightarrow>
          if c = CHR ''['' \<and> CHR '']'' \<in> set cs
          then (let header = rev (tl (dropWhile (\<lambda>x. x \<noteq> CHR '']'') (rev cs)))
                in if header = [] then None else Some header)
          else None)"

text \<open>
  \<^verbatim>\<open>OPTCRE.match(value)\<close>, the pattern \<^verbatim>\<open>(?P<option>.*?)\s*(?P<vi>=|:)\s*(?P<value>.*)$\<close>
  on a stripped line: the lazy option group ends before the white space in front of the
  first delimiter, the value group starts after the white space behind it. The result
  is the pair of the groups \<^verbatim>\<open>option\<close> and \<^verbatim>\<open>value\<close>.
\<close>

definition is_delim :: "char \<Rightarrow> bool" where
  "is_delim c \<longleftrightarrow> c = CHR ''='' \<or> c = CHR '':''"

definition optcre_match :: "string \<Rightarrow> (string \<times> string) option" where
  "optcre_match v =
     (case dropWhile (\<lambda>c. \<not> is_delim c) v of
        [] \<Rightarrow> None
      | vi # after \<Rightarrow> Some (rstrip (takeWhile (\<lambda>c. \<not> is_delim c) v), lstrip after))"

text \<open>
  \<^verbatim>\<open>BasicInterpolation._KEYCRE.match(rest)\<close>, the pattern \<^verbatim>\<open>%\(([^)]+)\)s\<close>: the result is
  group 1 and the text after the match, \<^verbatim>\<open>rest[m.end():]\<close>.
\<close>

definition keycre_match :: "string \<Rightarrow> (string \<times> string) option" where
  "keycre_match s =
     (if take 2 s = ''%(''
      then (let name = takeWhile (\<lambda>c. c \<noteq> CHR '')'') (drop 2 s);
                after = dropWhile (\<lambda>c. c \<noteq> CHR '')'') (drop 2 s)
            in if name \<noteq> [] \<and> take 2 after = '')s'' then Some (name, drop 2 after) else None)
      else None)"

subsection \<open>Reading a file: \<^verbatim>\<open>RawConfigParser._read\<close>\<close>

text \<open>
  A Python dict keeps insertion order: it is an association list, \<^const>\<open>AList.update\<close>
  stores under a key (in place when the key exists, at the end otherwise). While a file is
  read, the value of an option is the list of its lines.

  \<^verbatim>\<open>cursect\<close> is a reference to the dict being filled: the defaults of the parser or the
  dict of a section. \<^verbatim>\<open>elements_added\<close> holds section names and (section, option) pairs.
  \<^verbatim>\<open>exc\<close> is the local \<^verbatim>\<open>e\<close>: no exception, or the lines a \<^verbatim>\<open>ParsingError\<close> has collected.
\<close>

type_synonym raw_options = "(string \<times> string list) list"

datatype dictref = Defaults | Section string

record reader =
  r_sections :: "(string \<times> raw_options) list"
  r_defaults :: raw_options
  elements_added :: "(string + string \<times> string) set"
  cursect :: "dictref option"
  sectname :: "string option"
  optname :: "string option"
  indent_level :: nat
  exc :: "(nat \<times> string) list option"

definition new_reader :: reader where
  "new_reader = \<lparr>r_sections = [], r_defaults = [], elements_added = {}, cursect = None,
     sectname = None, optname = None, indent_level = 0, exc = None\<rparr>"

definition update_dict :: "dictref \<Rightarrow> (raw_options \<Rightarrow> raw_options) \<Rightarrow> reader \<Rightarrow> reader" where
  "update_dict ref f st =
     (case ref of
        Defaults \<Rightarrow> st\<lparr>r_defaults := f (r_defaults st)\<rparr>
      | Section name \<Rightarrow> st\<lparr>r_sections := AList.map_entry name f (r_sections st)\<rparr>)"

text \<open>\<^verbatim>\<open>cursect[optname].append(value)\<close>; the option is in the dict whenever this runs.\<close>

definition append_value :: "string \<Rightarrow> reader \<Rightarrow> reader" where
  "append_value v st =
     (case (cursect st, optname st) of
        (Some ref, Some name) \<Rightarrow> update_dict ref (AList.map_entry name (\<lambda>val. val @ [v])) st
      | _ \<Rightarrow> st)"

text \<open>\<^verbatim>\<open>_handle_error\<close>: start a \<^verbatim>\<open>ParsingError\<close> if there is none, and append the line.\<close>

definition handle_error :: "(nat \<times> string) list option \<Rightarrow> nat \<Rightarrow> string \<Rightarrow> (nat \<times> string) list option" where
  "handle_error ex lineno line =
     (case ex of
        None \<Rightarrow> Some [(lineno, repr line)]
      | Some errors \<Rightarrow> Some (errors @ [(lineno, repr line)]))"

text \<open>\<^verbatim>\<open>cursect is not None and optname\<close>: an empty option name is false in Python.\<close>

definition in_option :: "reader \<Rightarrow> bool" where
  "in_option st \<longleftrightarrow> cursect st \<noteq> None \<and> optname st \<noteq> None \<and> optname st \<noteq> Some []"

text \<open>
  One iteration of the loop \<^verbatim>\<open>for lineno, line in enumerate(fp, start=1)\<close>. With no inline
  comment prefix, \<^verbatim>\<open>comment_start\<close> is 0 for a full-line comment and \<^verbatim>\<open>None\<close> otherwise.
  \<^verbatim>\<open>Inl\<close> is the exception the iteration raises.
\<close>

definition first_nonspace :: "string \<Rightarrow> nat" where
  "first_nonspace line =
     (if \<exists>c \<in> set line. \<not> isspace c then length (takeWhile isspace line) else 0)"

definition read_line :: "string \<Rightarrow> nat \<Rightarrow> string \<Rightarrow> reader \<Rightarrow> config_error + reader" where
  "read_line fpname lineno line st =
     (let comment_start =
            (if startswith (strip line) ''#'' \<or> startswith (strip line) '';'' then Some (0::nat)
             else None);
          v = strip (case comment_start of None \<Rightarrow> line | Some n \<Rightarrow> take n line)
      in if v = [] then
           Inr (if comment_start = None \<and> in_option st then append_value [] st else st)
         else
           let cur_indent_level = first_nonspace line
           in if in_option st \<and> cur_indent_level > indent_level st then
                Inr (append_value v st)
              else
                let st = st\<lparr>indent_level := cur_indent_level\<rparr>
                in case sect_header v of
                     Some name \<Rightarrow>
                       if name \<in> fst ` set (r_sections st) then
                         if Inl name \<in> elements_added st then
                           Inl (DuplicateSectionError name fpname lineno)
                         else
                           Inr (st\<lparr>sectname := Some name, cursect := Some (Section name),
                                   elements_added := insert (Inl name) (elements_added st),
                                   optname := None\<rparr>)
                       else if name = ''DEFAULT'' then
                         Inr (st\<lparr>sectname := Some name, cursect := Some Defaults,
                                 optname := None\<rparr>)
                       else
                         Inr (st\<lparr>sectname := Some name, cursect := Some (Section name),
                                 r_sections := r_sections st @ [(name, [])],
                                 elements_added := insert (Inl name) (elements_added st),
                                 optname := None\<rparr>)
                   | None \<Rightarrow>
                       (case (cursect st, sectname st) of
                          (Some ref, Some sname) \<Rightarrow>
                            (case optcre_match v of
                               Some (oname, optval) \<Rightarrow>
                                 let ex = (if oname = [] then handle_error (exc st) lineno line
                                           else exc st);
                                     oname = lower (rstrip oname)
                                 in if Inr (sname, oname) \<in> elements_added st then
                                      Inl (DuplicateOptionError sname oname fpname lineno)
                                    else
                                      Inr (update_dict ref (AList.update oname [strip optval])
                                            (st\<lparr>exc := ex, optname := Some oname,
                                                elements_added :=
                                                  insert (Inr (sname, oname)) (elements_added st)\<rparr>))
                             | None \<Rightarrow> Inr (st\<lparr>exc := handle_error (exc st) lineno line\<rparr>))
                        | _ \<Rightarrow> Inl (MissingSectionHeaderError fpname lineno line)))"

fun read_lines :: "string \<Rightarrow> nat \<Rightarrow> string list \<Rightarrow> reader \<Rightarrow> config_error + reader" where
  "read_lines fpname lineno [] st = Inr st"
| "read_lines fpname lineno (line # rest) st =
     (case read_line fpname lineno line st of
        Inl err \<Rightarrow> Inl err
      | Inr st' \<Rightarrow> read_lines fpname (Suc lineno) rest st')"

subsection \<open>The parsed configuration\<close>

text \<open>
  \<^verbatim>\<open>_join_multiline_values\<close> turns each list of lines into one string; from then on the
  parser holds \<^verbatim>\<open>_sections\<close> and \<^verbatim>\<open>_defaults\<close> with string values.
\<close>

type_synonym options = "(string \<times> string) list"

record config =
  c_sections :: "(string \<times> options) list"
  c_defaults :: options

definition join_options :: "raw_options \<Rightarrow> options" where
  "join_options opts = map (\<lambda>(name, val). (name, rstrip (join [LF] val))) opts"

definition join_multiline_values :: "reader \<Rightarrow> config" where
  "join_multiline_values st =
     \<lparr>c_sections = map (\<lambda>(section, opts). (section, join_options opts)) (r_sections st),
      c_defaults = join_options (r_defaults st)\<rparr>"

text \<open>
  \<^verbatim>\<open>_read(fp, fpname)\<close> on the lines of a file, for a parser that has read nothing yet: the
  exception of the loop, the \<^verbatim>\<open>ParsingError\<close> raised after the loop, or the configuration.
\<close>

definition parser_read :: "string \<Rightarrow> string list \<Rightarrow> config_error + config" where
  "parser_read fpname lines =
     (case read_lines fpname 1 lines new_reader of
        Inl err \<Rightarrow> Inl err
      | Inr st \<Rightarrow>
          (case exc st of
             Some errors \<Rightarrow> Inl (ParsingError fpname errors)
           | None \<Rightarrow> Inr (join_multiline_values st)))"

subsection \<open>Looking options up: \<^verbatim>\<open>sections\<close>, \<^verbatim>\<open>has_option\<close>, \<^verbatim>\<open>get\<close>\<close>

text \<open>\<^verbatim>\<open>sections()\<close>: the section names in file order; the default section is not one.\<close>

definition sections :: "config \<Rightarrow> string list" where
  "sections cfg = map fst (c_sections cfg)"

definition has_option :: "config \<Rightarrow> string \<Rightarrow> string \<Rightarrow> bool" where
  "has_option cfg section option =
     (if section = [] \<or> section = ''DEFAULT'' then
        lower option \<in> fst ` set (c_defaults cfg)
      else
        (case map_of (c_sections cfg) section of
           None \<Rightarrow> False
         | Some opts \<Rightarrow>
             lower option \<in> fst ` set opts \<or> lower option \<in> fst ` set (c_defaults cfg)))"

text \<open>
  \<^verbatim>\<open>_unify_values(section, None)\<close>: the chain of the section's dict and the defaults;
  \<^verbatim>\<open>None\<close> is \<^verbatim>\<open>NoSectionError\<close>.
\<close>

definition unify_values :: "config \<Rightarrow> string \<Rightarrow> (string \<rightharpoonup> string) option" where
  "unify_values cfg section =
     (case map_of (c_sections cfg) section of
        Some opts \<Rightarrow>
          Some (\<lambda>k. case map_of opts k of Some v \<Rightarrow> Some v | None \<Rightarrow> map_of (c_defaults cfg) k)
      | None \<Rightarrow>
          if section \<noteq> ''DEFAULT'' then None else Some (map_of (c_defaults cfg)))"

text \<open>
  \<^verbatim>\<open>BasicInterpolation._interpolate_some\<close>. The Python appends to the list \<^verbatim>\<open>accum\<close>, which
  \<^verbatim>\<open>before_get\<close> joins; here the function returns the text it appends. \<^verbatim>\<open>interpolate_loop\<close>
  is its \<^verbatim>\<open>while rest\<close> loop.
\<close>

function interpolate_some ::
    "string \<Rightarrow> string \<Rightarrow> (string \<rightharpoonup> string) \<Rightarrow> nat \<Rightarrow> string \<Rightarrow> config_error + string"
  and interpolate_loop ::
    "string \<Rightarrow> string \<Rightarrow> (string \<rightharpoonup> string) \<Rightarrow> nat \<Rightarrow> string \<Rightarrow> string \<Rightarrow> config_error + string"
where
  "interpolate_some option section m depth rest =
     (let rawval = (case m (lower option) of Some v \<Rightarrow> v | None \<Rightarrow> rest)
      in if depth > 10 then Inl (InterpolationDepthError option section rawval)
         else interpolate_loop option section m depth rawval rest)"
| "interpolate_loop option section m depth rawval rest =
     (if rest = [] then Inr []
      else
        let before = takeWhile (\<lambda>c. c \<noteq> CHR ''%'') rest;
            rest' = dropWhile (\<lambda>c. c \<noteq> CHR ''%'') rest
        in if rest' = [] then Inr rest
           else if take 1 (drop 1 rest') = ''%'' then
             (case interpolate_loop option section m depth rawval (drop 2 rest') of
                Inl err \<Rightarrow> Inl err
              | Inr s \<Rightarrow> Inr (before @ ''%'' @ s))
           else if take 1 (drop 1 rest') = ''('' then
             (case keycre_match rest' of
                None \<Rightarrow>
                  Inl (InterpolationSyntaxError option section
                        (''bad interpolation variable reference '' @ repr rest'))
              | Some (name, after) \<Rightarrow>
                  (case m (lower name) of
                     None \<Rightarrow> Inl (InterpolationMissingOptionError option section rawval (lower name))
                   | Some v \<Rightarrow>
                       (case (if CHR ''%'' \<in> set v
                              then interpolate_some option section m (depth + 1) v
                              else Inr v) of
                          Inl err \<Rightarrow> Inl err
                        | Inr s \<Rightarrow>
                            (case interpolate_loop option section m depth rawval after of
                               Inl err \<Rightarrow> Inl err
                             | Inr t \<Rightarrow> Inr (before @ s @ t)))))
           else
             Inl (InterpolationSyntaxError option section
                   ([SQUOTE] @ ''%'' @ [SQUOTE] @ '' must be followed by '' @
                    [SQUOTE] @ ''%'' @ [SQUOTE] @ '' or '' @ [SQUOTE] @ ''('' @ [SQUOTE] @
                    '', found: '' @ repr rest')))"
  by pat_completeness auto

termination
  apply (relation "measures
    [\<lambda>x. case x of Inl (_, _, _, depth, _) \<Rightarrow> 2 * (11 - depth) + (if depth > 10 then 0 else 1)
               | Inr (_, _, _, depth, _, _) \<Rightarrow> 2 * (11 - depth) + (if depth > 10 then 1 else 0),
     \<lambda>x. case x of Inl (_, _, _, _, rest) \<Rightarrow> length rest
               | Inr (_, _, _, _, _, rest) \<Rightarrow> length rest]")
      apply simp_all
  subgoal for rest
    using length_dropWhile_le [of "\<lambda>c. c \<noteq> CHR ''%''" rest] by (cases rest) auto
  subgoal by arith
  subgoal for _ _ _ _ rest _ _ x2 name after
  proof -
    assume "keycre_match (dropWhile (\<lambda>c. c \<noteq> CHR ''%'') rest) = Some x2" and "(name, after) = x2"
    then have m: "keycre_match (dropWhile (\<lambda>c. c \<noteq> CHR ''%'') rest) = Some (name, after)"
      by simp
    define d where "d = dropWhile (\<lambda>c. c \<noteq> CHR ''%'') rest"
    have "length d \<le> length rest"
      unfolding d_def by (rule length_dropWhile_le)
    moreover have "length (dropWhile (\<lambda>c. c \<noteq> CHR '')'') (drop 2 d)) \<le> length (drop 2 d)"
      by (rule length_dropWhile_le)
    moreover from m have "take 2 d = ''%(''"
      by (auto simp: keycre_match_def d_def split: if_splits)
    then have "2 \<le> length d"
      by (cases d; cases "tl d") auto
    moreover from m have "after = drop 2 (dropWhile (\<lambda>c. c \<noteq> CHR '')'') (drop 2 d))"
      by (auto simp: keycre_match_def Let_def d_def split: if_splits)
    ultimately show "length after < length rest"
      by simp
  qed
  done

declare interpolate_some.simps [simp del] interpolate_loop.simps [simp del]

text \<open>
  \<^verbatim>\<open>get(section, option, fallback=None)\<close>, as the section proxy's \<^verbatim>\<open>get\<close> calls it: the
  fallback \<^verbatim>\<open>None\<close> when the section or the option is missing, otherwise the value after
  \<^verbatim>\<open>before_get\<close>, which may raise.
\<close>

definition get :: "config \<Rightarrow> string \<Rightarrow> string \<Rightarrow> config_error + string option" where
  "get cfg section option =
     (case unify_values cfg section of
        None \<Rightarrow> Inr None
      | Some d \<Rightarrow>
          (case d (lower option) of
             None \<Rightarrow> Inr None
           | Some v \<Rightarrow>
               (case interpolate_some (lower option) section d 1 v of
                  Inl err \<Rightarrow> Inl err
                | Inr s \<Rightarrow> Inr (Some s))))"

section \<open>The operating system\<close>

text \<open>
  What the script reads from its process: the file system, the environment and the
  password database (for \<^verbatim>\<open>os.path.expanduser\<close>), and the two streams it writes.
  A path is missing (\<^verbatim>\<open>os.path.exists\<close> is false), exists but cannot be opened for
  reading (a directory, a file without permission: \<^verbatim>\<open>open\<close> raises \<^verbatim>\<open>OSError\<close>), or is a
  file with its decoded text.
\<close>

datatype fs_entry = Missing | Unopenable | Text string

record world =
  fs :: "string \<Rightarrow> fs_entry"
  environ :: "string \<rightharpoonup> string"
  pw_dir_uid :: "string option"  \<comment> \<open>\<^verbatim>\<open>pwd.getpwuid(os.getuid()).pw_dir\<close>, if the user is known\<close>
  pw_dir_nam :: "string \<rightharpoonup> string"  \<comment> \<open>\<^verbatim>\<open>pwd.getpwnam(name).pw_dir\<close>\<close>
  stdout :: string
  stderr :: string

text \<open>\<^verbatim>\<open>print(s)\<close> and \<^verbatim>\<open>print(s, file=sys.stderr)\<close> write the text and a newline.\<close>

definition print_stdout :: "string \<Rightarrow> world \<Rightarrow> world" where
  "print_stdout s w = w\<lparr>stdout := stdout w @ s @ [LF]\<rparr>"

definition print_stderr :: "string \<Rightarrow> world \<Rightarrow> world" where
  "print_stderr s w = w\<lparr>stderr := stderr w @ s @ [LF]\<rparr>"

text \<open>\<^verbatim>\<open>posixpath.expanduser\<close>.\<close>

definition expanduser :: "world \<Rightarrow> string \<Rightarrow> string" where
  "expanduser w path =
     (if \<not> startswith path ''~'' then path
      else
        let i = length (takeWhile (\<lambda>c. c \<noteq> CHR ''/'') path);
            userhome =
              (if i = 1 then
                 (case environ w ''HOME'' of
                    None \<Rightarrow> pw_dir_uid w
                  | Some home \<Rightarrow> Some home)
               else pw_dir_nam w (take (i - 1) (drop 1 path)))
        in case userhome of
             None \<Rightarrow> path
           | Some home \<Rightarrow>
               (let r = rev (dropWhile (\<lambda>c. c = CHR ''/'') (rev home)) @ drop i path
                in if r = [] then ''/'' else r))"

text \<open>
  Opening a file in text mode translates the line ends \<^verbatim>\<open>\r\n\<close> and \<^verbatim>\<open>\r\<close> to \<^verbatim>\<open>\n\<close>;
  iterating over it yields the lines, each with its newline.
\<close>

fun universal_newlines :: "string \<Rightarrow> string" where
  "universal_newlines [] = []"
| "universal_newlines [c] = (if c = CR then [LF] else [c])"
| "universal_newlines (c # d # cs) =
     (if c = CR \<and> d = LF then LF # universal_newlines cs
      else if c = CR then LF # universal_newlines (d # cs)
      else c # universal_newlines (d # cs))"

fun readlines :: "string \<Rightarrow> string list" where
  "readlines [] = []"
| "readlines (c # cs) =
     (if c = LF then [c] # readlines cs
      else (case readlines cs of [] \<Rightarrow> [[c]] | l # ls \<Rightarrow> (c # l) # ls))"

text \<open>
  \<^verbatim>\<open>config.read(filename)\<close> on a new parser: a file that cannot be opened is silently
  ignored and leaves the parser empty.
\<close>

definition read :: "world \<Rightarrow> string \<Rightarrow> config_error + config" where
  "read w filename =
     (case fs w filename of
        Text t \<Rightarrow> parser_read filename (readlines (universal_newlines t))
      | _ \<Rightarrow> Inr \<lparr>c_sections = [], c_defaults = []\<rparr>)"

section \<open>The standard library's \<^verbatim>\<open>json.dumps\<close>\<close>

text \<open>
  The values the script serializes: \<^verbatim>\<open>None\<close>, strings, lists and dicts with string keys.
  \<^verbatim>\<open>encode_basestring_ascii\<close> escapes the quote, the backslash and everything outside the
  range from space to tilde.
\<close>

datatype json = JNull | JString string | JArray "json list" | JObject "(string \<times> json) list"

definition escape_char :: "char \<Rightarrow> string" where
  "escape_char c =
     (if c = BACKSLASH then [BACKSLASH, BACKSLASH]
      else if c = DQUOTE then [BACKSLASH, DQUOTE]
      else if c = CHR 0x08 then [BACKSLASH, CHR ''b'']
      else if c = CHR 0x0C then [BACKSLASH, CHR ''f'']
      else if c = LF then [BACKSLASH, CHR ''n'']
      else if c = CR then [BACKSLASH, CHR ''r'']
      else if c = CHR 0x09 then [BACKSLASH, CHR ''t'']
      else if ord c < 32 \<or> 126 < ord c then [BACKSLASH] @ ''u00'' @ hex2 (ord c)
      else [c])"

definition encode_basestring_ascii :: "string \<Rightarrow> string" where
  "encode_basestring_ascii s = [DQUOTE] @ concat (map escape_char s) @ [DQUOTE]"

text \<open>
  \<^verbatim>\<open>_iterencode\<close> with its chunks joined. \<^verbatim>\<open>indent\<close> is \<^verbatim>\<open>None\<close> or a number of spaces;
  the item separator is \<^verbatim>\<open>', '\<close> without indent and \<^verbatim>\<open>','\<close> with one, the key separator
  \<^verbatim>\<open>': '\<close>.
\<close>

definition newline_indent :: "nat option \<Rightarrow> nat \<Rightarrow> string" where
  "newline_indent indent level =
     (case indent of None \<Rightarrow> [] | Some n \<Rightarrow> LF # replicate (n * level) CHR '' '')"

definition item_separator :: "nat option \<Rightarrow> string" where
  "item_separator indent = (case indent of None \<Rightarrow> '', '' | Some n \<Rightarrow> '','')"

fun iterencode :: "nat option \<Rightarrow> nat \<Rightarrow> json \<Rightarrow> string" where
  "iterencode indent level JNull = ''null''"
| "iterencode indent level (JString s) = encode_basestring_ascii s"
| "iterencode indent level (JArray lst) =
     (if lst = [] then ''[]''
      else ''['' @ newline_indent indent (level + 1) @
           join (item_separator indent @ newline_indent indent (level + 1))
             (map (iterencode indent (level + 1)) lst) @
           newline_indent indent level @ '']'')"
| "iterencode indent level (JObject dct) =
     (if dct = [] then ''{}''
      else ''{'' @ newline_indent indent (level + 1) @
           join (item_separator indent @ newline_indent indent (level + 1))
             (map (\<lambda>(key, v). encode_basestring_ascii key @ '': '' @
                                iterencode indent (level + 1) v) dct) @
           newline_indent indent level @ ''}'')"

definition dumps :: "nat option \<Rightarrow> json \<Rightarrow> string" where
  "dumps indent obj = iterencode indent 0 obj"

section \<open>The script \<^verbatim>\<open>scripts/aws_sso.py\<close>\<close>

text \<open>
  One element of \<^verbatim>\<open>sso_profiles\<close>: the dict literal of the loop body, with its five keys.
  \<^verbatim>\<open>None\<close> is Python's \<^verbatim>\<open>None\<close>.
\<close>

record sso_profile =
  profile :: string
  sso_account_id :: "string option"
  sso_role_name :: "string option"
  sso_region :: "string option"
  sso_start_url :: "string option"

text \<open>
  How a call ends: it returns, \<^verbatim>\<open>sys.exit\<close> ends the process with a status, or an
  exception leaves it uncaught.
\<close>

datatype 'a py = Return 'a | SysExit nat | Raise config_error

text \<open>Lines 29 and 30: the path of the config file.\<close>

definition resolve_config_file :: "string option \<Rightarrow> world \<Rightarrow> string" where
  "resolve_config_file config_file w =
     (case config_file of
        None \<Rightarrow>
          expanduser w
            (case environ w ''AWS_CONFIG_FILE'' of None \<Rightarrow> ''~/.aws/config'' | Some v \<Rightarrow> v)
      | Some path \<Rightarrow> path)"

text \<open>
  Lines 47 to 70: the loop over \<^verbatim>\<open>config.sections()\<close>, with the list \<^verbatim>\<open>sso_profiles\<close>
  built so far. The four \<^verbatim>\<open>get\<close> calls of the dict literal run in order, the first
  exception ends the loop.
\<close>

fun sso_profiles_loop :: "config \<Rightarrow> string list \<Rightarrow> sso_profile list \<Rightarrow> config_error + sso_profile list" where
  "sso_profiles_loop config [] sso_profiles = Inr sso_profiles"
| "sso_profiles_loop config (section # rest) sso_profiles =
     (if section = ''default'' \<or> startswith section ''profile '' then
        (let profile_name = (if section = ''default'' then ''default'' else drop 8 section)
         in if \<not> has_option config section ''sso_start_url'' then
              sso_profiles_loop config rest sso_profiles
            else
              (case get config section ''sso_account_id'' of
                 Inl err \<Rightarrow> Inl err
               | Inr account_id \<Rightarrow>
              (case get config section ''sso_role_name'' of
                 Inl err \<Rightarrow> Inl err
               | Inr role_name \<Rightarrow>
              (case get config section ''sso_region'' of
                 Inl err \<Rightarrow> Inl err
               | Inr region \<Rightarrow>
              (case get config section ''sso_start_url'' of
                 Inl err \<Rightarrow> Inl err
               | Inr start_url \<Rightarrow>
                   sso_profiles_loop config rest
                     (sso_profiles @
                      [\<lparr>profile = profile_name, sso_account_id = account_id,
                        sso_role_name = role_name, sso_region = region,
                        sso_start_url = start_url\<rparr>]))))))
      else sso_profiles_loop config rest sso_profiles)"

definition parse_sso_profiles :: "string option \<Rightarrow> world \<Rightarrow> sso_profile list py \<times> world" where
  "parse_sso_profiles config_file w =
     (let config_file = resolve_config_file config_file w
      in if fs w config_file = Missing then
           (SysExit 1, print_stderr (''ERROR: AWS config file not found: '' @ config_file) w)
         else
           (case read w config_file of
              Inl e \<Rightarrow>
                (SysExit 1, print_stderr (''ERROR: Failed to parse config file: '' @ str_error e) w)
            | Inr config \<Rightarrow>
                (case sso_profiles_loop config (sections config) [] of
                   Inl e \<Rightarrow> (Raise e, w)
                 | Inr sso_profiles \<Rightarrow> (Return sso_profiles, w))))"

definition profile_json :: "sso_profile \<Rightarrow> json" where
  "profile_json p =
     (let opt = (\<lambda>v. case v of None \<Rightarrow> JNull | Some s \<Rightarrow> JString s)
      in JObject [(''profile'', JString (profile p)),
                  (''sso_account_id'', opt (sso_account_id p)),
                  (''sso_role_name'', opt (sso_role_name p)),
                  (''sso_region'', opt (sso_region p)),
                  (''sso_start_url'', opt (sso_start_url p))])"

definition main :: "world \<Rightarrow> unit py \<times> world" where
  "main w =
     (case parse_sso_profiles None w of
        (Return profiles, w') \<Rightarrow>
          if profiles = [] then
            (SysExit 0, print_stdout (dumps None (JObject [(''profiles'', JArray [])])) w')
          else
            (Return (),
             print_stdout
               (dumps (Some 2) (JObject [(''profiles'', JArray (map profile_json profiles))])) w')
      | (SysExit status, w') \<Rightarrow> (SysExit status, w')
      | (Raise e, w') \<Rightarrow> (Raise e, w'))"

text \<open>
  The exit status of the process. After an uncaught exception the interpreter writes a
  traceback to standard error (which \<^const>\<open>stderr\<close> does not hold) and exits with 1.
\<close>

definition exit_status :: "unit py \<Rightarrow> nat" where
  "exit_status r = (case r of Return _ \<Rightarrow> 0 | SysExit status \<Rightarrow> status | Raise _ \<Rightarrow> 1)"

section \<open>Example processes\<close>

text \<open>
  A process with \<^verbatim>\<open>HOME=/home/u\<close> and no \<^verbatim>\<open>AWS_CONFIG_FILE\<close>, whose file system holds one
  entry, at \<^verbatim>\<open>/home/u/.aws/config\<close>; nothing has been written yet.
\<close>

definition file_of_lines :: "string list \<Rightarrow> string" where
  "file_of_lines ls = concat (map (\<lambda>l. l @ [LF]) ls)"

definition example_world :: "fs_entry \<Rightarrow> world" where
  "example_world entry =
     \<lparr>fs = (\<lambda>p. if p = ''/home/u/.aws/config'' then entry else Missing),
      environ = [''HOME'' \<mapsto> ''/home/u''],
      pw_dir_uid = Some ''/home/u'', pw_dir_nam = Map.empty,
      stdout = [], stderr = []\<rparr>"

section \<open>Properties of the loop over the sections\<close>

lemma lower_sso_start_url: "lower ''sso_start_url'' = ''sso_start_url''"
  by code_simp

lemma interpolate_plain:
  assumes "CHR ''%'' \<notin> set v" and "depth \<le> 10"
  shows "interpolate_some option section d depth v = Inr v"
proof -
  from assms have "dropWhile (\<lambda>c. c \<noteq> CHR ''%'') v = []"
    by auto
  with assms show ?thesis
    by (subst interpolate_some.simps, subst interpolate_loop.simps) (simp add: Let_def)
qed

lemma loop_records:
  assumes "sso_profiles_loop config secs acc = Inr ps"
  shows "\<exists>qs. ps = acc @ qs \<and>
           list_all2 (\<lambda>p s.
               profile p = (if s = ''default'' then ''default'' else drop 8 s) \<and>
               get config s ''sso_account_id'' = Inr (sso_account_id p) \<and>
               get config s ''sso_role_name'' = Inr (sso_role_name p) \<and>
               get config s ''sso_region'' = Inr (sso_region p) \<and>
               get config s ''sso_start_url'' = Inr (sso_start_url p))
             qs
             (filter (\<lambda>s. (s = ''default'' \<or> startswith s ''profile '') \<and>
                         has_option config s ''sso_start_url'') secs)"
  using assms
proof (induction secs arbitrary: acc ps)
  case Nil
  then show ?case by simp
next
  case (Cons s secs)
  show ?case
  proof (cases "(s = ''default'' \<or> startswith s ''profile '') \<and> has_option config s ''sso_start_url''")
    case False
    with Cons.prems have "sso_profiles_loop config secs acc = Inr ps"
      by (auto simp: Let_def split: if_splits)
    from Cons.IH [OF this] False show ?thesis
      by auto
  next
    case True
    with Cons.prems obtain a r g u where
      g: "get config s ''sso_account_id'' = Inr a" "get config s ''sso_role_name'' = Inr r"
         "get config s ''sso_region'' = Inr g" "get config s ''sso_start_url'' = Inr u"
      and rest: "sso_profiles_loop config secs
          (acc @ [\<lparr>profile = (if s = ''default'' then ''default'' else drop 8 s),
                   sso_account_id = a, sso_role_name = r, sso_region = g, sso_start_url = u\<rparr>]) = Inr ps"
      by (auto simp: Let_def split: if_splits sum.splits)
    from Cons.IH [OF rest] obtain qs where
      "ps = (acc @ [\<lparr>profile = (if s = ''default'' then ''default'' else drop 8 s),
                   sso_account_id = a, sso_role_name = r, sso_region = g, sso_start_url = u\<rparr>]) @ qs"
      and "list_all2 (\<lambda>p s.
               profile p = (if s = ''default'' then ''default'' else drop 8 s) \<and>
               get config s ''sso_account_id'' = Inr (sso_account_id p) \<and>
               get config s ''sso_role_name'' = Inr (sso_role_name p) \<and>
               get config s ''sso_region'' = Inr (sso_region p) \<and>
               get config s ''sso_start_url'' = Inr (sso_start_url p))
             qs
             (filter (\<lambda>s. (s = ''default'' \<or> startswith s ''profile '') \<and>
                         has_option config s ''sso_start_url'') secs)"
      by blast
    with True g show ?thesis
      by (intro exI [of _ "\<lparr>profile = (if s = ''default'' then ''default'' else drop 8 s),
                   sso_account_id = a, sso_role_name = r, sso_region = g, sso_start_url = u\<rparr> # qs"])
         simp
  qed
qed


lemma parse_Return:
  assumes "fst (parse_sso_profiles config_file w) = Return ps"
    and "read w (resolve_config_file config_file w) = Inr config"
  shows "sso_profiles_loop config (sections config) [] = Inr ps"
  using assms by (auto simp: parse_sso_profiles_def Let_def split: if_splits sum.splits)

lemma parse_records:
  assumes "fst (parse_sso_profiles config_file w) = Return ps"
    and "read w (resolve_config_file config_file w) = Inr config"
  shows "list_all2 (\<lambda>p s.
               profile p = (if s = ''default'' then ''default'' else drop 8 s) \<and>
               get config s ''sso_account_id'' = Inr (sso_account_id p) \<and>
               get config s ''sso_role_name'' = Inr (sso_role_name p) \<and>
               get config s ''sso_region'' = Inr (sso_region p) \<and>
               get config s ''sso_start_url'' = Inr (sso_start_url p))
             ps
             (filter (\<lambda>s. (s = ''default'' \<or> startswith s ''profile '') \<and>
                         has_option config s ''sso_start_url'') (sections config))"
  using loop_records [OF parse_Return [OF assms]] by simp

lemma startswith_profile: "startswith s ''profile '' \<longleftrightarrow> take 8 s = ''profile ''"
proof -
  have "length ''profile '' = (8::nat)"
    by simp
  then show ?thesis
    unfolding startswith_def by (simp only:)
qed

lemma has_option_profile_section:
  assumes "s = ''default'' \<or> take 8 s = ''profile ''"
  shows "has_option config s ''sso_start_url'' \<longleftrightarrow>
           (case map_of (c_sections config) s of
              None \<Rightarrow> False
            | Some opts \<Rightarrow> ''sso_start_url'' \<in> fst ` set opts \<or>
                            ''sso_start_url'' \<in> fst ` set (c_defaults config))"
proof -
  from assms have "s \<noteq> [] \<and> s \<noteq> ''DEFAULT''"
    by auto
  then show ?thesis
    by (simp add: has_option_def lower_sso_start_url split: option.splits)
qed

lemma profile_section_marker:
  "((s = ''default'' \<or> take 8 s = ''profile '') \<and>
      (case map_of (c_sections config) s of
         None \<Rightarrow> False
       | Some opts \<Rightarrow> ''sso_start_url'' \<in> fst ` set opts \<or>
                       ''sso_start_url'' \<in> fst ` set (c_defaults config))) \<longleftrightarrow>
   ((s = ''default'' \<or> startswith s ''profile '') \<and> has_option config s ''sso_start_url'')"
  using has_option_profile_section [of s config] unfolding startswith_profile by blast

lemma lower_sso_keys:
  "lower ''sso_account_id'' = ''sso_account_id''"
  "lower ''sso_role_name'' = ''sso_role_name''"
  "lower ''sso_region'' = ''sso_region''"
  by code_simp+

lemma get_value:
  assumes "get config s key = Inr r" and "unify_values config s = Some d" and "lower key = key"
  shows "(d key = None \<longrightarrow> r = None) \<and>
         (\<forall>v. d key = Some v \<longrightarrow> r \<noteq> None \<and> (CHR ''%'' \<notin> set v \<longrightarrow> r = Some v))"
  using assms
  by (auto simp: get_def interpolate_plain split: option.splits sum.splits)

lemma unify_values_section:
  assumes "s \<in> set (sections config)"
  shows "\<exists>opts. map_of (c_sections config) s = Some opts \<and>
           unify_values config s =
             Some (\<lambda>k. case map_of opts k of Some v \<Rightarrow> Some v | None \<Rightarrow> map_of (c_defaults config) k)"
proof -
  from assms obtain opts where "map_of (c_sections config) s = Some opts"
    by (auto simp: sections_def) (metis map_of_eq_None_iff not_None_eq imageI fst_conv)
  then show ?thesis
    by (simp add: unify_values_def)
qed

lemma json_record: \<open>iterencode (Some 2) 2 (profile_json p) =
   ''{'' @ [LF] @
   ''      "profile": '' @ encode_basestring_ascii (profile p) @ '','' @ [LF] @
   ''      "sso_account_id": '' @
      (case sso_account_id p of None \<Rightarrow> ''null'' | Some v \<Rightarrow> encode_basestring_ascii v) @
      '','' @ [LF] @
   ''      "sso_role_name": '' @
      (case sso_role_name p of None \<Rightarrow> ''null'' | Some v \<Rightarrow> encode_basestring_ascii v) @
      '','' @ [LF] @
   ''      "sso_region": '' @
      (case sso_region p of None \<Rightarrow> ''null'' | Some v \<Rightarrow> encode_basestring_ascii v) @
      '','' @ [LF] @
   ''      "sso_start_url": '' @
      (case sso_start_url p of None \<Rightarrow> ''null'' | Some v \<Rightarrow> encode_basestring_ascii v) @
      [LF] @ ''    }''\<close>
proof -
  have e: "encode_basestring_ascii ''profile'' = [DQUOTE] @ ''profile'' @ [DQUOTE]"
    "encode_basestring_ascii ''sso_account_id'' = [DQUOTE] @ ''sso_account_id'' @ [DQUOTE]"
    "encode_basestring_ascii ''sso_role_name'' = [DQUOTE] @ ''sso_role_name'' @ [DQUOTE]"
    "encode_basestring_ascii ''sso_region'' = [DQUOTE] @ ''sso_region'' @ [DQUOTE]"
    "encode_basestring_ascii ''sso_start_url'' = [DQUOTE] @ ''sso_start_url'' @ [DQUOTE]"
    by code_simp+
  have r: "replicate 6 CHR '' '' = ''      ''" "replicate 4 CHR '' '' = ''    ''"
    by code_simp+
  show ?thesis
    by (simp add: profile_json_def newline_indent_def item_separator_def e r
        split: option.splits)
qed

lemma dumps_empty: \<open>dumps None (JObject [(''profiles'', JArray [])]) = ''{"profiles": []}''\<close>
  by code_simp

lemma parse_Return_world:
  "fst (parse_sso_profiles config_file w) = Return ps \<Longrightarrow>
   snd (parse_sso_profiles config_file w) = w"
  by (auto simp: parse_sso_profiles_def Let_def split: if_splits sum.splits)

lemma expanduser_cong:
  assumes "environ w2 = environ w1" "pw_dir_uid w2 = pw_dir_uid w1" "pw_dir_nam w2 = pw_dir_nam w1"
  shows "expanduser w2 path = expanduser w1 path"
  by (simp only: expanduser_def assms)

lemma resolve_config_file_cong:
  assumes "environ w2 = environ w1" "pw_dir_uid w2 = pw_dir_uid w1" "pw_dir_nam w2 = pw_dir_nam w1"
  shows "resolve_config_file config_file w2 = resolve_config_file config_file w1"
  by (simp only: resolve_config_file_def assms expanduser_cong [OF assms])

lemma read_cong: "fs w2 = fs w1 \<Longrightarrow> read w2 path = read w1 path"
  by (simp add: read_def)

lemma parse_inputs:
  assumes "fs w2 = fs w1" and "environ w2 = environ w1"
    and "pw_dir_uid w2 = pw_dir_uid w1" and "pw_dir_nam w2 = pw_dir_nam w1"
  shows "\<exists>r err. parse_sso_profiles cf w1 = (r, w1\<lparr>stderr := stderr w1 @ err\<rparr>) \<and>
                  parse_sso_profiles cf w2 = (r, w2\<lparr>stderr := stderr w2 @ err\<rparr>)"
proof -
  note res = resolve_config_file_cong [OF assms(2-4)]
  note rd = read_cong [OF assms(1)]
  show ?thesis
  proof (cases "fs w1 (resolve_config_file cf w1) = Missing")
    case True
    with assms(1) show ?thesis
      by (intro exI [of _ "SysExit 1"]
            exI [of _ "''ERROR: AWS config file not found: '' @ resolve_config_file cf w1 @ [LF]"])
         (simp add: parse_sso_profiles_def print_stderr_def Let_def res)
  next
    case False
    show ?thesis
    proof (cases "read w1 (resolve_config_file cf w1)")
      case (Inl e)
      with False assms(1) show ?thesis
        by (intro exI [of _ "SysExit 1"]
              exI [of _ "''ERROR: Failed to parse config file: '' @ str_error e @ [LF]"])
           (simp add: parse_sso_profiles_def print_stderr_def Let_def res rd)
    next
      case (Inr config)
      show ?thesis
      proof (cases "sso_profiles_loop config (sections config) []")
        case (Inl e)
        with Inr False assms(1) show ?thesis
          by (intro exI [of _ "Raise e"] exI [of _ "[]"])
             (simp add: parse_sso_profiles_def Let_def res rd)
      next
        case (Inr ps)
        with \<open>read w1 (resolve_config_file cf w1) = Inr config\<close> False assms(1) show ?thesis
          by (intro exI [of _ "Return ps"] exI [of _ "[]"])
             (simp add: parse_sso_profiles_def Let_def res rd)
      qed
    qed
  qed
qed

lemma main_inputs:
  assumes "fs w2 = fs w1" and "environ w2 = environ w1"
    and "pw_dir_uid w2 = pw_dir_uid w1" and "pw_dir_nam w2 = pw_dir_nam w1"
  shows "\<exists>r out err.
           main w1 = (r, w1\<lparr>stdout := stdout w1 @ out, stderr := stderr w1 @ err\<rparr>) \<and>
           main w2 = (r, w2\<lparr>stdout := stdout w2 @ out, stderr := stderr w2 @ err\<rparr>)"
proof -
  from parse_inputs [OF assms, of None] obtain r err where
    q: "parse_sso_profiles None w1 = (r, w1\<lparr>stderr := stderr w1 @ err\<rparr>)"
       "parse_sso_profiles None w2 = (r, w2\<lparr>stderr := stderr w2 @ err\<rparr>)"
    by blast
  show ?thesis
  proof (cases r)
    case (Return ps)
    show ?thesis
    proof (cases "ps = []")
      case True
      with Return q show ?thesis
        by (intro exI [of _ "SysExit 0"]
              exI [of _ "dumps None (JObject [(''profiles'', JArray [])]) @ [LF]"]
              exI [of _ err])
           (simp add: main_def print_stdout_def)
    next
      case False
      with Return q show ?thesis
        by (intro exI [of _ "Return ()"]
              exI [of _ "dumps (Some 2)
                 (JObject [(''profiles'', JArray (map profile_json ps))]) @ [LF]"]
              exI [of _ err])
           (simp add: main_def print_stdout_def)
    qed
  next
    case (SysExit n)
    with q show ?thesis
      by (intro exI [of _ "SysExit n"] exI [of _ "[]"] exI [of _ err]) (simp add: main_def)
  next
    case (Raise e)
    with q show ?thesis
      by (intro exI [of _ "Raise e"] exI [of _ "[]"] exI [of _ err]) (simp add: main_def)
  qed
qed



section \<open>Properties of the reader\<close>














lemma repeated_default_header_accepted:
  "read (example_world (Text (file_of_lines
           [''[DEFAULT]'', ''sso_region = us-east-1'', ''[DEFAULT]'',
            ''sso_start_url = https://d'', ''[profile a]''])))
     (resolve_config_file None (example_world (Text (file_of_lines
           [''[DEFAULT]'', ''sso_region = us-east-1'', ''[DEFAULT]'',
            ''sso_start_url = https://d'', ''[profile a]''])))) =
     Inr \<lparr>c_sections = [(''profile a'', [])],
          c_defaults = [(''sso_region'', ''us-east-1''), (''sso_start_url'', ''https://d'')]\<rparr>"
  by code_simp

section \<open>The claims\<close>

text \<open>
  Claim C4: for every section of the parsed document the profile name is \<^verbatim>\<open>default\<close> when
  the section name is exactly \<^verbatim>\<open>default\<close>, the rest of the name after the eight characters
  \<^verbatim>\<open>profile \<close> when it starts with them, and every other section (such as
  \<^verbatim>\<open>sso-session foo\<close>) is skipped and gives no record. The names of the records returned
  are, in file order, the names derived this way from the sections that are named so and
  pass the test for \<^verbatim>\<open>sso_start_url\<close>.
\<close>

theorem profile_name_of_section:
  assumes "read w (resolve_config_file config_file w) = Inr config"
    and "fst (parse_sso_profiles config_file w) = Return ps"
  shows "map profile ps =
           map (\<lambda>s. if s = ''default'' then ''default'' else drop 8 s)
             (filter (\<lambda>s. (s = ''default'' \<or> take 8 s = ''profile '') \<and>
                         has_option config s ''sso_start_url'') (sections config))"
proof -
  have "list_all2 (\<lambda>p s. profile p = (if s = ''default'' then ''default'' else drop 8 s)) ps
          (filter (\<lambda>s. (s = ''default'' \<or> startswith s ''profile '') \<and>
                      has_option config s ''sso_start_url'') (sections config))"
    by (rule list_all2_mono [OF parse_records [OF assms(2,1)]]) simp
  then have "list_all2 (=) (map profile ps)
          (map (\<lambda>s. if s = ''default'' then ''default'' else drop 8 s)
            (filter (\<lambda>s. (s = ''default'' \<or> startswith s ''profile '') \<and>
                      has_option config s ''sso_start_url'') (sections config)))"
    by (simp add: list.rel_map)
  then show ?thesis
    by (simp only: list.rel_eq startswith_profile)
qed

theorem profile_name_of_section_witness:
  "read (example_world (Text (file_of_lines
        [''[default]'', ''sso_start_url = https://d.awsapps.com/start'',
         ''[profile dev]'', ''sso_start_url = https://x.awsapps.com/start'',
         ''[sso-session foo]'', ''sso_start_url = https://s.awsapps.com/start'',
         ''[profile plain]'', ''aws_access_key_id = AKIA''])))
     (resolve_config_file None (example_world (Text (file_of_lines
        [''[default]'', ''sso_start_url = https://d.awsapps.com/start'',
         ''[profile dev]'', ''sso_start_url = https://x.awsapps.com/start'',
         ''[sso-session foo]'', ''sso_start_url = https://s.awsapps.com/start'',
         ''[profile plain]'', ''aws_access_key_id = AKIA''])))) =
     Inr \<lparr>c_sections =
          [(''default'', [(''sso_start_url'', ''https://d.awsapps.com/start'')]),
           (''profile dev'', [(''sso_start_url'', ''https://x.awsapps.com/start'')]),
           (''sso-session foo'', [(''sso_start_url'', ''https://s.awsapps.com/start'')]),
           (''profile plain'', [(''aws_access_key_id'', ''AKIA'')])],
        c_defaults = []\<rparr> \<and>
   fst (parse_sso_profiles None (example_world (Text (file_of_lines
        [''[default]'', ''sso_start_url = https://d.awsapps.com/start'',
         ''[profile dev]'', ''sso_start_url = https://x.awsapps.com/start'',
         ''[sso-session foo]'', ''sso_start_url = https://s.awsapps.com/start'',
         ''[profile plain]'', ''aws_access_key_id = AKIA''])))) =
     Return [\<lparr>profile = ''default'', sso_account_id = None, sso_role_name = None,
          sso_region = None, sso_start_url = Some ''https://d.awsapps.com/start''\<rparr>,
        \<lparr>profile = ''dev'', sso_account_id = None, sso_role_name = None,
          sso_region = None, sso_start_url = Some ''https://x.awsapps.com/start''\<rparr>] \<and>
   map profile [\<lparr>profile = ''default'', sso_account_id = None, sso_role_name = None,
          sso_region = None, sso_start_url = Some ''https://d.awsapps.com/start''\<rparr>,
        \<lparr>profile = ''dev'', sso_account_id = None, sso_role_name = None,
          sso_region = None, sso_start_url = Some ''https://x.awsapps.com/start''\<rparr>] =
     map (\<lambda>s. if s = ''default'' then ''default'' else drop 8 s)
       (filter (\<lambda>s. (s = ''default'' \<or> take 8 s = ''profile '') \<and>
                   has_option \<lparr>c_sections =
          [(''default'', [(''sso_start_url'', ''https://d.awsapps.com/start'')]),
           (''profile dev'', [(''sso_start_url'', ''https://x.awsapps.com/start'')]),
           (''sso-session foo'', [(''sso_start_url'', ''https://s.awsapps.com/start'')]),
           (''profile plain'', [(''aws_access_key_id'', ''AKIA'')])],
        c_defaults = []\<rparr> s ''sso_start_url'')
          (sections \<lparr>c_sections =
          [(''default'', [(''sso_start_url'', ''https://d.awsapps.com/start'')]),
           (''profile dev'', [(''sso_start_url'', ''https://x.awsapps.com/start'')]),
           (''sso-session foo'', [(''sso_start_url'', ''https://s.awsapps.com/start'')]),
           (''profile plain'', [(''aws_access_key_id'', ''AKIA'')])],
        c_defaults = []\<rparr>))"
proof -
  have r: "read (example_world (Text (file_of_lines
        [''[default]'', ''sso_start_url = https://d.awsapps.com/start'',
         ''[profile dev]'', ''sso_start_url = https://x.awsapps.com/start'',
         ''[sso-session foo]'', ''sso_start_url = https://s.awsapps.com/start'',
         ''[profile plain]'', ''aws_access_key_id = AKIA''])))
     (resolve_config_file None (example_world (Text (file_of_lines
        [''[default]'', ''sso_start_url = https://d.awsapps.com/start'',
         ''[profile dev]'', ''sso_start_url = https://x.awsapps.com/start'',
         ''[sso-session foo]'', ''sso_start_url = https://s.awsapps.com/start'',
         ''[profile plain]'', ''aws_access_key_id = AKIA''])))) =
     Inr \<lparr>c_sections =
          [(''default'', [(''sso_start_url'', ''https://d.awsapps.com/start'')]),
           (''profile dev'', [(''sso_start_url'', ''https://x.awsapps.com/start'')]),
           (''sso-session foo'', [(''sso_start_url'', ''https://s.awsapps.com/start'')]),
           (''profile plain'', [(''aws_access_key_id'', ''AKIA'')])],
        c_defaults = []\<rparr>"
    by code_simp
  have p: "fst (parse_sso_profiles None (example_world (Text (file_of_lines
        [''[default]'', ''sso_start_url = https://d.awsapps.com/start'',
         ''[profile dev]'', ''sso_start_url = https://x.awsapps.com/start'',
         ''[sso-session foo]'', ''sso_start_url = https://s.awsapps.com/start'',
         ''[profile plain]'', ''aws_access_key_id = AKIA''])))) =
     Return [\<lparr>profile = ''default'', sso_account_id = None, sso_role_name = None,
          sso_region = None, sso_start_url = Some ''https://d.awsapps.com/start''\<rparr>,
        \<lparr>profile = ''dev'', sso_account_id = None, sso_role_name = None,
          sso_region = None, sso_start_url = Some ''https://x.awsapps.com/start''\<rparr>]"
    by code_simp
  show ?thesis
    by (rule conjI [OF r conjI [OF p profile_name_of_section [OF r p]]])
qed

text \<open>
  Claim C1, as amended: for every config file that parses, the result holds one record,
  in file order, for each section that is named \<^verbatim>\<open>default\<close> or \<^verbatim>\<open>profile <name>\<close> and
  has the key \<^verbatim>\<open>sso_start_url\<close> among its own keys or among those of \<^verbatim>\<open>[DEFAULT]\<close>, whatever
  its value, the empty one included; no other section gives a record. (The claim asked
  for a non-empty value in the section itself.)
\<close>

theorem record_iff_marker_key_present:
  assumes "read w (resolve_config_file config_file w) = Inr config"
    and "fst (parse_sso_profiles config_file w) = Return ps"
  shows "list_all2 (\<lambda>p s. profile p = (if s = ''default'' then ''default'' else drop 8 s)) ps
           (filter (\<lambda>s. (s = ''default'' \<or> take 8 s = ''profile '') \<and>
                       (case map_of (c_sections config) s of
                          None \<Rightarrow> False
                        | Some opts \<Rightarrow> ''sso_start_url'' \<in> fst ` set opts \<or>
                                        ''sso_start_url'' \<in> fst ` set (c_defaults config)))
              (sections config))"
proof -
  have "filter (\<lambda>s. (s = ''default'' \<or> take 8 s = ''profile '') \<and>
                       (case map_of (c_sections config) s of
                          None \<Rightarrow> False
                        | Some opts \<Rightarrow> ''sso_start_url'' \<in> fst ` set opts \<or>
                                        ''sso_start_url'' \<in> fst ` set (c_defaults config)))
              (sections config) =
        filter (\<lambda>s. (s = ''default'' \<or> startswith s ''profile '') \<and>
                      has_option config s ''sso_start_url'') (sections config)"
    by (simp only: profile_section_marker)
  moreover have "list_all2 (\<lambda>p s. profile p = (if s = ''default'' then ''default'' else drop 8 s)) ps
          (filter (\<lambda>s. (s = ''default'' \<or> startswith s ''profile '') \<and>
                      has_option config s ''sso_start_url'') (sections config))"
    by (rule list_all2_mono [OF parse_records [OF assms(2,1)]]) simp
  ultimately show ?thesis
    by simp
qed

theorem record_iff_marker_key_present_witness:
  "read (example_world (Text (file_of_lines
        [''[profile a]'', ''sso_start_url ='',
         ''[profile plain]'', ''aws_access_key_id = AKIA'',
         ''[sso-session foo]'', ''sso_start_url = https://s.awsapps.com/start''])))
     (resolve_config_file None (example_world (Text (file_of_lines
        [''[profile a]'', ''sso_start_url ='',
         ''[profile plain]'', ''aws_access_key_id = AKIA'',
         ''[sso-session foo]'', ''sso_start_url = https://s.awsapps.com/start''])))) =
     Inr \<lparr>c_sections =
          [(''profile a'', [(''sso_start_url'', [])]),
           (''profile plain'', [(''aws_access_key_id'', ''AKIA'')]),
           (''sso-session foo'', [(''sso_start_url'', ''https://s.awsapps.com/start'')])],
        c_defaults = []\<rparr> \<and>
   fst (parse_sso_profiles None (example_world (Text (file_of_lines
        [''[profile a]'', ''sso_start_url ='',
         ''[profile plain]'', ''aws_access_key_id = AKIA'',
         ''[sso-session foo]'', ''sso_start_url = https://s.awsapps.com/start''])))) =
     Return [\<lparr>profile = ''a'', sso_account_id = None, sso_role_name = None,
          sso_region = None, sso_start_url = Some []\<rparr>] \<and>
   list_all2 (\<lambda>p s. profile p = (if s = ''default'' then ''default'' else drop 8 s))
     [\<lparr>profile = ''a'', sso_account_id = None, sso_role_name = None,
          sso_region = None, sso_start_url = Some []\<rparr>]
     (filter (\<lambda>s. (s = ''default'' \<or> take 8 s = ''profile '') \<and>
                 (case map_of (c_sections \<lparr>c_sections =
          [(''profile a'', [(''sso_start_url'', [])]),
           (''profile plain'', [(''aws_access_key_id'', ''AKIA'')]),
           (''sso-session foo'', [(''sso_start_url'', ''https://s.awsapps.com/start'')])],
        c_defaults = []\<rparr>) s of
                    None \<Rightarrow> False
                  | Some opts \<Rightarrow> ''sso_start_url'' \<in> fst ` set opts \<or>
                      ''sso_start_url'' \<in> fst ` set (c_defaults \<lparr>c_sections =
          [(''profile a'', [(''sso_start_url'', [])]),
           (''profile plain'', [(''aws_access_key_id'', ''AKIA'')]),
           (''sso-session foo'', [(''sso_start_url'', ''https://s.awsapps.com/start'')])],
        c_defaults = []\<rparr>)))
        (sections \<lparr>c_sections =
          [(''profile a'', [(''sso_start_url'', [])]),
           (''profile plain'', [(''aws_access_key_id'', ''AKIA'')]),
           (''sso-session foo'', [(''sso_start_url'', ''https://s.awsapps.com/start'')])],
        c_defaults = []\<rparr>))"
proof -
  have r: "read (example_world (Text (file_of_lines
        [''[profile a]'', ''sso_start_url ='',
         ''[profile plain]'', ''aws_access_key_id = AKIA'',
         ''[sso-session foo]'', ''sso_start_url = https://s.awsapps.com/start''])))
     (resolve_config_file None (example_world (Text (file_of_lines
        [''[profile a]'', ''sso_start_url ='',
         ''[profile plain]'', ''aws_access_key_id = AKIA'',
         ''[sso-session foo]'', ''sso_start_url = https://s.awsapps.com/start''])))) =
     Inr \<lparr>c_sections =
          [(''profile a'', [(''sso_start_url'', [])]),
           (''profile plain'', [(''aws_access_key_id'', ''AKIA'')]),
           (''sso-session foo'', [(''sso_start_url'', ''https://s.awsapps.com/start'')])],
        c_defaults = []\<rparr>"
    by code_simp
  have p: "fst (parse_sso_profiles None (example_world (Text (file_of_lines
        [''[profile a]'', ''sso_start_url ='',
         ''[profile plain]'', ''aws_access_key_id = AKIA'',
         ''[sso-session foo]'', ''sso_start_url = https://s.awsapps.com/start''])))) =
     Return [\<lparr>profile = ''a'', sso_account_id = None, sso_role_name = None,
          sso_region = None, sso_start_url = Some []\<rparr>]"
    by code_simp
  show ?thesis
    by (rule conjI [OF r conjI [OF p record_iff_marker_key_present [OF r p]]])
qed

text \<open>
  The claim C1 as it was stated fails on a profile whose \<^verbatim>\<open>sso_start_url\<close> is empty: the
  section holds no non-empty \<^verbatim>\<open>sso_start_url\<close>, and the result has a record for it.
\<close>

theorem empty_marker_counterexample:
  "read (example_world (Text (file_of_lines [''[profile a]'', ''sso_start_url =''])))
     (resolve_config_file None
       (example_world (Text (file_of_lines [''[profile a]'', ''sso_start_url ='']))))
     = Inr \<lparr>c_sections = [(''profile a'', [(''sso_start_url'', [])])], c_defaults = []\<rparr> \<and>
   fst (parse_sso_profiles None
         (example_world (Text (file_of_lines [''[profile a]'', ''sso_start_url ='']))))
     = Return [\<lparr>profile = ''a'', sso_account_id = None, sso_role_name = None,
                 sso_region = None, sso_start_url = Some []\<rparr>]"
  by code_simp

text \<open>
  Claim C5, as amended: every record has exactly the five keys \<^verbatim>\<open>profile\<close>,
  \<^verbatim>\<open>sso_account_id\<close>, \<^verbatim>\<open>sso_role_name\<close>, \<^verbatim>\<open>sso_region\<close> and \<^verbatim>\<open>sso_start_url\<close>. Each of the four
  \<^verbatim>\<open>sso_*\<close> fields is looked up in the section and then in \<^verbatim>\<open>[DEFAULT]\<close>: it is \<^verbatim>\<open>None\<close>,
  serialized as JSON \<^verbatim>\<open>null\<close>, when the key is in neither, and otherwise a string, which
  is the value found whenever that value holds no percent sign (a value with one goes
  through interpolation first). (The claim took the value from the section alone and gave
  \<^verbatim>\<open>null\<close> whenever the section lacks the key.)
\<close>

theorem record_fields_from_section_or_default:
  assumes "read w (resolve_config_file config_file w) = Inr config"
    and "fst (parse_sso_profiles config_file w) = Return ps"
  shows \<open>list_all2 (\<lambda>p s. \<exists>opts. map_of (c_sections config) s = Some opts \<and>
            (\<forall>(field, key) \<in> set [(sso_account_id, ''sso_account_id''),
                                   (sso_role_name, ''sso_role_name''),
                                   (sso_region, ''sso_region''),
                                   (sso_start_url, ''sso_start_url'')].
               case (case map_of opts key of
                       Some v \<Rightarrow> Some v
                     | None \<Rightarrow> map_of (c_defaults config) key) of
                 None \<Rightarrow> field p = None
               | Some v \<Rightarrow> field p \<noteq> None \<and> (CHR ''%'' \<notin> set v \<longrightarrow> field p = Some v)))
           ps
           (filter (\<lambda>s. (s = ''default'' \<or> take 8 s = ''profile '') \<and>
                       has_option config s ''sso_start_url'') (sections config)) \<and>
         (\<forall>p \<in> set ps. iterencode (Some 2) 2 (profile_json p) =
            ''{'' @ [LF] @
            ''      "profile": '' @ encode_basestring_ascii (profile p) @ '','' @ [LF] @
            ''      "sso_account_id": '' @
               (case sso_account_id p of None \<Rightarrow> ''null'' | Some v \<Rightarrow> encode_basestring_ascii v) @
               '','' @ [LF] @
            ''      "sso_role_name": '' @
               (case sso_role_name p of None \<Rightarrow> ''null'' | Some v \<Rightarrow> encode_basestring_ascii v) @
               '','' @ [LF] @
            ''      "sso_region": '' @
               (case sso_region p of None \<Rightarrow> ''null'' | Some v \<Rightarrow> encode_basestring_ascii v) @
               '','' @ [LF] @
            ''      "sso_start_url": '' @
               (case sso_start_url p of None \<Rightarrow> ''null'' | Some v \<Rightarrow> encode_basestring_ascii v) @
               [LF] @ ''    }'')\<close>
proof (intro conjI ballI)
  fix p
  show \<open>iterencode (Some 2) 2 (profile_json p) =
            ''{'' @ [LF] @
            ''      "profile": '' @ encode_basestring_ascii (profile p) @ '','' @ [LF] @
            ''      "sso_account_id": '' @
               (case sso_account_id p of None \<Rightarrow> ''null'' | Some v \<Rightarrow> encode_basestring_ascii v) @
               '','' @ [LF] @
            ''      "sso_role_name": '' @
               (case sso_role_name p of None \<Rightarrow> ''null'' | Some v \<Rightarrow> encode_basestring_ascii v) @
               '','' @ [LF] @
            ''      "sso_region": '' @
               (case sso_region p of None \<Rightarrow> ''null'' | Some v \<Rightarrow> encode_basestring_ascii v) @
               '','' @ [LF] @
            ''      "sso_start_url": '' @
               (case sso_start_url p of None \<Rightarrow> ''null'' | Some v \<Rightarrow> encode_basestring_ascii v) @
               [LF] @ ''    }''\<close>
    by (rule json_record)
next
  have "list_all2 (\<lambda>p s. \<exists>opts. map_of (c_sections config) s = Some opts \<and>
            (\<forall>(field, key) \<in> set [(sso_account_id, ''sso_account_id''),
                                   (sso_role_name, ''sso_role_name''),
                                   (sso_region, ''sso_region''),
                                   (sso_start_url, ''sso_start_url'')].
               case (case map_of opts key of
                       Some v \<Rightarrow> Some v
                     | None \<Rightarrow> map_of (c_defaults config) key) of
                 None \<Rightarrow> field p = None
               | Some v \<Rightarrow> field p \<noteq> None \<and> (CHR ''%'' \<notin> set v \<longrightarrow> field p = Some v)))
           ps
           (filter (\<lambda>s. (s = ''default'' \<or> startswith s ''profile '') \<and>
                       has_option config s ''sso_start_url'') (sections config))"
  proof (rule list.rel_mono_strong [OF parse_records [OF assms(2,1)]], goal_cases)
    case (1 p s)
    then have "s \<in> set (sections config)"
      by simp
    from unify_values_section [OF this] obtain opts where
      opts: "map_of (c_sections config) s = Some opts"
      and d: "unify_values config s =
             Some (\<lambda>k. case map_of opts k of Some v \<Rightarrow> Some v | None \<Rightarrow> map_of (c_defaults config) k)"
      by blast
    from 1 have g: "get config s ''sso_account_id'' = Inr (sso_account_id p)"
      "get config s ''sso_role_name'' = Inr (sso_role_name p)"
      "get config s ''sso_region'' = Inr (sso_region p)"
      "get config s ''sso_start_url'' = Inr (sso_start_url p)"
      by simp_all
    show ?case
      using get_value [OF g(1) d lower_sso_keys(1)] get_value [OF g(2) d lower_sso_keys(2)]
        get_value [OF g(3) d lower_sso_keys(3)] get_value [OF g(4) d lower_sso_start_url] opts
      by (auto split: option.splits)
  qed
  then show "list_all2 (\<lambda>p s. \<exists>opts. map_of (c_sections config) s = Some opts \<and>
            (\<forall>(field, key) \<in> set [(sso_account_id, ''sso_account_id''),
                                   (sso_role_name, ''sso_role_name''),
                                   (sso_region, ''sso_region''),
                                   (sso_start_url, ''sso_start_url'')].
               case (case map_of opts key of
                       Some v \<Rightarrow> Some v
                     | None \<Rightarrow> map_of (c_defaults config) key) of
                 None \<Rightarrow> field p = None
               | Some v \<Rightarrow> field p \<noteq> None \<and> (CHR ''%'' \<notin> set v \<longrightarrow> field p = Some v)))
           ps
           (filter (\<lambda>s. (s = ''default'' \<or> take 8 s = ''profile '') \<and>
                       has_option config s ''sso_start_url'') (sections config))"
    by (simp only: startswith_profile)
qed

theorem record_fields_from_section_or_default_witness:
  \<open>read (example_world (Text (file_of_lines
          [''[DEFAULT]'', ''sso_region = us-east-1'',
           ''[profile dev]'', ''sso_start_url = https://x.awsapps.com/start'',
           ''sso_role_name = Admin''])))
     (resolve_config_file None (example_world (Text (file_of_lines
          [''[DEFAULT]'', ''sso_region = us-east-1'',
           ''[profile dev]'', ''sso_start_url = https://x.awsapps.com/start'',
           ''sso_role_name = Admin''])))) =
     Inr \<lparr>c_sections =
            [(''profile dev'', [(''sso_start_url'', ''https://x.awsapps.com/start''),
                                (''sso_role_name'', ''Admin'')])],
          c_defaults = [(''sso_region'', ''us-east-1'')]\<rparr> \<and>
   fst (parse_sso_profiles None (example_world (Text (file_of_lines
          [''[DEFAULT]'', ''sso_region = us-east-1'',
           ''[profile dev]'', ''sso_start_url = https://x.awsapps.com/start'',
           ''sso_role_name = Admin''])))) =
     Return [\<lparr>profile = ''dev'', sso_account_id = None, sso_role_name = Some ''Admin'',
               sso_region = Some ''us-east-1'',
               sso_start_url = Some ''https://x.awsapps.com/start''\<rparr>] \<and>
   iterencode (Some 2) 2
     (profile_json \<lparr>profile = ''dev'', sso_account_id = None, sso_role_name = Some ''Admin'',
                     sso_region = Some ''us-east-1'',
                     sso_start_url = Some ''https://x.awsapps.com/start''\<rparr>) =
     join [LF]
       [''{'',
        ''      "profile": "dev",'',
        ''      "sso_account_id": null,'',
        ''      "sso_role_name": "Admin",'',
        ''      "sso_region": "us-east-1",'',
        ''      "sso_start_url": "https://x.awsapps.com/start"'',
        ''    }'']\<close>
proof -
  let ?p = "\<lparr>profile = ''dev'', sso_account_id = None, sso_role_name = Some ''Admin'',
              sso_region = Some ''us-east-1'',
              sso_start_url = Some ''https://x.awsapps.com/start''\<rparr>"
  have r: "read (example_world (Text (file_of_lines
          [''[DEFAULT]'', ''sso_region = us-east-1'',
           ''[profile dev]'', ''sso_start_url = https://x.awsapps.com/start'',
           ''sso_role_name = Admin''])))
     (resolve_config_file None (example_world (Text (file_of_lines
          [''[DEFAULT]'', ''sso_region = us-east-1'',
           ''[profile dev]'', ''sso_start_url = https://x.awsapps.com/start'',
           ''sso_role_name = Admin''])))) =
     Inr \<lparr>c_sections =
            [(''profile dev'', [(''sso_start_url'', ''https://x.awsapps.com/start''),
                                (''sso_role_name'', ''Admin'')])],
          c_defaults = [(''sso_region'', ''us-east-1'')]\<rparr>"
    by code_simp
  have p: "fst (parse_sso_profiles None (example_world (Text (file_of_lines
          [''[DEFAULT]'', ''sso_region = us-east-1'',
           ''[profile dev]'', ''sso_start_url = https://x.awsapps.com/start'',
           ''sso_role_name = Admin''])))) = Return [?p]"
    by code_simp
  from record_fields_from_section_or_default [OF r p]
  have \<open>iterencode (Some 2) 2 (profile_json ?p) =
            ''{'' @ [LF] @
            ''      "profile": '' @ encode_basestring_ascii (profile ?p) @ '','' @ [LF] @
            ''      "sso_account_id": '' @
               (case sso_account_id ?p of None \<Rightarrow> ''null'' | Some v \<Rightarrow> encode_basestring_ascii v) @
               '','' @ [LF] @
            ''      "sso_role_name": '' @
               (case sso_role_name ?p of None \<Rightarrow> ''null'' | Some v \<Rightarrow> encode_basestring_ascii v) @
               '','' @ [LF] @
            ''      "sso_region": '' @
               (case sso_region ?p of None \<Rightarrow> ''null'' | Some v \<Rightarrow> encode_basestring_ascii v) @
               '','' @ [LF] @
            ''      "sso_start_url": '' @
               (case sso_start_url ?p of None \<Rightarrow> ''null'' | Some v \<Rightarrow> encode_basestring_ascii v) @
               [LF] @ ''    }''\<close>
    by simp
  also have \<open>''{'' @ [LF] @
            ''      "profile": '' @ encode_basestring_ascii (profile ?p) @ '','' @ [LF] @
            ''      "sso_account_id": '' @
               (case sso_account_id ?p of None \<Rightarrow> ''null'' | Some v \<Rightarrow> encode_basestring_ascii v) @
               '','' @ [LF] @
            ''      "sso_role_name": '' @
               (case sso_role_name ?p of None \<Rightarrow> ''null'' | Some v \<Rightarrow> encode_basestring_ascii v) @
               '','' @ [LF] @
            ''      "sso_region": '' @
               (case sso_region ?p of None \<Rightarrow> ''null'' | Some v \<Rightarrow> encode_basestring_ascii v) @
               '','' @ [LF] @
            ''      "sso_start_url": '' @
               (case sso_start_url ?p of None \<Rightarrow> ''null'' | Some v \<Rightarrow> encode_basestring_ascii v) @
               [LF] @ ''    }'' =
     join [LF]
       [''{'',
        ''      "profile": "dev",'',
        ''      "sso_account_id": null,'',
        ''      "sso_role_name": "Admin",'',
        ''      "sso_region": "us-east-1",'',
        ''      "sso_start_url": "https://x.awsapps.com/start"'',
        ''    }'']\<close>
    by code_simp
  finally show ?thesis
    using r p by blast
qed

text \<open>
  The claim C5 as it was stated fails on a file whose \<^verbatim>\<open>[DEFAULT]\<close> section sets
  \<^verbatim>\<open>sso_region\<close>: the section \<^verbatim>\<open>profile dev\<close> has no key \<^verbatim>\<open>sso_region\<close>, and the field of
  its record is not \<^verbatim>\<open>null\<close>.
\<close>

theorem missing_key_not_null_counterexample:
  \<open>read (example_world (Text (file_of_lines
        [''[DEFAULT]'', ''sso_region = us-east-1'',
         ''[profile dev]'', ''sso_start_url = https://x.awsapps.com/start''])))
     (resolve_config_file None (example_world (Text (file_of_lines
        [''[DEFAULT]'', ''sso_region = us-east-1'',
         ''[profile dev]'', ''sso_start_url = https://x.awsapps.com/start''])))) =
     Inr \<lparr>c_sections =
            [(''profile dev'', [(''sso_start_url'', ''https://x.awsapps.com/start'')])],
          c_defaults = [(''sso_region'', ''us-east-1'')]\<rparr> \<and>
   fst (main (example_world (Text (file_of_lines
        [''[DEFAULT]'', ''sso_region = us-east-1'',
         ''[profile dev]'', ''sso_start_url = https://x.awsapps.com/start''])))) = Return () \<and>
   stdout (snd (main (example_world (Text (file_of_lines
        [''[DEFAULT]'', ''sso_region = us-east-1'',
         ''[profile dev]'', ''sso_start_url = https://x.awsapps.com/start'']))))) =
     file_of_lines
       [''{'',
        ''  "profiles": ['',
        ''    {'',
        ''      "profile": "dev",'',
        ''      "sso_account_id": null,'',
        ''      "sso_role_name": null,'',
        ''      "sso_region": "us-east-1",'',
        ''      "sso_start_url": "https://x.awsapps.com/start"'',
        ''    }'',
        ''  ]'',
        ''}'']\<close>
  by code_simp



text \<open>
  Claim C3, as amended: for every resolved path that does not exist, \<^verbatim>\<open>parse_sso_profiles\<close>
  ends the process with status 1 after one line on standard error,
  \<^verbatim>\<open>ERROR: AWS config file not found: <path>\<close>, and writes nothing to standard output. (The
  claim also covered paths that exist and cannot be read.)
\<close>

theorem missing_config_file_fails:
  assumes "fs w (resolve_config_file config_file w) = Missing"
  shows "parse_sso_profiles config_file w =
           (SysExit 1,
            w\<lparr>stderr := stderr w @ ''ERROR: AWS config file not found: '' @
                          resolve_config_file config_file w @ [LF]\<rparr>) \<and>
         stdout (snd (parse_sso_profiles config_file w)) = stdout w \<and>
         (config_file = None \<longrightarrow>
            main w = (SysExit 1,
                      w\<lparr>stderr := stderr w @ ''ERROR: AWS config file not found: '' @
                                    resolve_config_file config_file w @ [LF]\<rparr>))"
  using assms by (auto simp: parse_sso_profiles_def main_def print_stderr_def Let_def)

theorem missing_config_file_fails_witness:
  "fs (example_world Missing) (resolve_config_file None (example_world Missing)) = Missing \<and>
   parse_sso_profiles None (example_world Missing) =
     (SysExit 1,
      (example_world Missing)\<lparr>stderr := stderr (example_world Missing) @
          ''ERROR: AWS config file not found: '' @
          resolve_config_file None (example_world Missing) @ [LF]\<rparr>) \<and>
   stdout (snd (parse_sso_profiles None (example_world Missing))) = stdout (example_world Missing) \<and>
   (main (example_world Missing) =
        (SysExit 1,
         (example_world Missing)\<lparr>stderr := stderr (example_world Missing) @
             ''ERROR: AWS config file not found: '' @
             resolve_config_file None (example_world Missing) @ [LF]\<rparr>)) \<and>
   stderr (snd (main (example_world Missing))) =
     ''ERROR: AWS config file not found: /home/u/.aws/config'' @ [LF] \<and>
   stdout (snd (main (example_world Missing))) = [] \<and>
   exit_status (fst (main (example_world Missing))) = 1"
proof -
  have m: "fs (example_world Missing) (resolve_config_file None (example_world Missing)) = Missing"
    by code_simp
  have e: "stderr (snd (main (example_world Missing))) =
     ''ERROR: AWS config file not found: /home/u/.aws/config'' @ [LF]"
    "stdout (snd (main (example_world Missing))) = []"
    "exit_status (fst (main (example_world Missing))) = 1"
    by code_simp+
  from missing_config_file_fails [OF m] m e show ?thesis
    by blast
qed

text \<open>
  The claim C3 as it was stated fails on a path that exists and cannot be opened for
  reading, such as a directory: \<^verbatim>\<open>os.path.exists\<close> holds, the parser ignores the file, and
  the process prints the empty collection and exits with 0.
\<close>

theorem unopenable_path_counterexample:
  \<open>fs (example_world Unopenable) (resolve_config_file None (example_world Unopenable)) =
     Unopenable \<and>
   fst (parse_sso_profiles None (example_world Unopenable)) = Return [] \<and>
   fst (main (example_world Unopenable)) = SysExit 0 \<and>
   stdout (snd (main (example_world Unopenable))) = ''{"profiles": []}'' @ [LF] \<and>
   stderr (snd (main (example_world Unopenable))) = []\<close>
  by code_simp

text \<open>
  Claim C6: whenever \<^verbatim>\<open>parse_sso_profiles\<close> returns an empty list, the process writes
  exactly the compact JSON document \<^verbatim>\<open>{"profiles": []}\<close> (and the newline of \<^verbatim>\<open>print\<close>) to
  standard output, nothing to standard error, and exits with status 0.
\<close>

theorem empty_result_output:
  assumes "fst (parse_sso_profiles None w) = Return []"
  shows \<open>fst (main w) = SysExit 0 \<and> exit_status (fst (main w)) = 0 \<and>
         stdout (snd (main w)) = stdout w @ ''{"profiles": []}'' @ [LF] \<and>
         stderr (snd (main w)) = stderr w\<close>
proof -
  from assms parse_Return_world [OF assms]
  have "parse_sso_profiles None w = (Return [], w)"
    by (metis prod.collapse)
  then show ?thesis
    by (simp add: main_def exit_status_def print_stdout_def dumps_empty)
qed

theorem empty_result_output_witness:
  \<open>fst (parse_sso_profiles None
      (example_world (Text (file_of_lines [''[profile plain]'', ''aws_access_key_id = AKIA''])))) =
     Return [] \<and>
   fst (main (example_world (Text (file_of_lines [''[profile plain]'', ''aws_access_key_id = AKIA''])))) =
     SysExit 0 \<and>
   exit_status (fst (main
     (example_world (Text (file_of_lines [''[profile plain]'', ''aws_access_key_id = AKIA'']))))) = 0 \<and>
   stdout (snd (main
     (example_world (Text (file_of_lines [''[profile plain]'', ''aws_access_key_id = AKIA'']))))) =
     stdout (example_world (Text (file_of_lines [''[profile plain]'', ''aws_access_key_id = AKIA'']))) @
     ''{"profiles": []}'' @ [LF] \<and>
   stderr (snd (main
     (example_world (Text (file_of_lines [''[profile plain]'', ''aws_access_key_id = AKIA'']))))) =
     stderr (example_world (Text (file_of_lines [''[profile plain]'', ''aws_access_key_id = AKIA''])))\<close>
proof -
  have p: "fst (parse_sso_profiles None
      (example_world (Text (file_of_lines [''[profile plain]'', ''aws_access_key_id = AKIA''])))) =
     Return []"
    by code_simp
  from empty_result_output [OF p] p show ?thesis
    by blast
qed

text \<open>
  Claim C7, as amended: an explicit \<^verbatim>\<open>config_file\<close> argument takes precedence over the
  environment and is used as it is given, without tilde expansion. Without an argument the
  path is the value of \<^verbatim>\<open>AWS_CONFIG_FILE\<close> when it is set and \<^verbatim>\<open>~/.aws/config\<close> otherwise,
  after tilde expansion: with \<^verbatim>\<open>HOME\<close> set, the default is \<^verbatim>\<open>.aws/config\<close> under that
  directory. (The claim expanded the tilde of every resolved path.)
\<close>

theorem config_file_resolution:
  assumes "environ w ''HOME'' = Some home"
  shows "resolve_config_file (Some path) w = path \<and>
         resolve_config_file None w =
           (case environ w ''AWS_CONFIG_FILE'' of
              None \<Rightarrow> rev (dropWhile (\<lambda>c. c = CHR ''/'') (rev home)) @ ''/.aws/config''
            | Some v \<Rightarrow> expanduser w v)"
proof -
  have "expanduser w ''~/.aws/config'' =
          rev (dropWhile (\<lambda>c. c = CHR ''/'') (rev home)) @ ''/.aws/config''"
    using assms by (simp add: expanduser_def Let_def startswith_def)
  then show ?thesis
    by (simp add: resolve_config_file_def split: option.splits)
qed

theorem config_file_resolution_witness:
  "environ (example_world Missing) ''HOME'' = Some ''/home/u'' \<and>
   resolve_config_file (Some ''/etc/aws.ini'') (example_world Missing) = ''/etc/aws.ini'' \<and>
   resolve_config_file None (example_world Missing) =
     (case environ (example_world Missing) ''AWS_CONFIG_FILE'' of
        None \<Rightarrow> rev (dropWhile (\<lambda>c. c = CHR ''/'') (rev ''/home/u'')) @ ''/.aws/config''
      | Some v \<Rightarrow> expanduser (example_world Missing) v) \<and>
   resolve_config_file None (example_world Missing) = ''/home/u/.aws/config'' \<and>
   resolve_config_file None ((example_world Missing)\<lparr>environ := [''HOME'' \<mapsto> ''/home/u'',
       ''AWS_CONFIG_FILE'' \<mapsto> ''~/work/config'']\<rparr>) = ''/home/u/work/config'' \<and>
   resolve_config_file (Some ''/etc/aws.ini'')
     ((example_world Missing)\<lparr>environ := [''HOME'' \<mapsto> ''/home/u'',
       ''AWS_CONFIG_FILE'' \<mapsto> ''~/work/config'']\<rparr>) = ''/etc/aws.ini''"
proof -
  have h: "environ (example_world Missing) ''HOME'' = Some ''/home/u''"
    by code_simp
  have e: "resolve_config_file None (example_world Missing) = ''/home/u/.aws/config''"
    "resolve_config_file None ((example_world Missing)\<lparr>environ := [''HOME'' \<mapsto> ''/home/u'',
       ''AWS_CONFIG_FILE'' \<mapsto> ''~/work/config'']\<rparr>) = ''/home/u/work/config''"
    "resolve_config_file (Some ''/etc/aws.ini'')
     ((example_world Missing)\<lparr>environ := [''HOME'' \<mapsto> ''/home/u'',
       ''AWS_CONFIG_FILE'' \<mapsto> ''~/work/config'']\<rparr>) = ''/etc/aws.ini''"
    by code_simp+
  from config_file_resolution [OF h, of "''/etc/aws.ini''"] h e show ?thesis
    by blast
qed

text \<open>
  The claim C7 as it was stated fails on an explicit argument that starts with a tilde:
  the path the function uses is the argument itself, not its expansion.
\<close>

theorem explicit_path_not_expanded_counterexample:
  "resolve_config_file (Some ''~/cfg'') (example_world Missing) = ''~/cfg'' \<and>
   expanduser (example_world Missing) ''~/cfg'' = ''/home/u/cfg''"
  by code_simp

text \<open>
  Claim C8: for every existing file whose content the parser rejects, the operation fails
  with the parser's message: \<^verbatim>\<open>ERROR: Failed to parse config file: \<close> followed by the text
  of the exception is written to standard error, the process exits with status 1, and
  nothing is written to standard output.
\<close>

theorem parse_error_reported:
  assumes "fs w (resolve_config_file config_file w) = Text t"
    and "read w (resolve_config_file config_file w) = Inl e"
  shows "parse_sso_profiles config_file w =
           (SysExit 1,
            w\<lparr>stderr := stderr w @ ''ERROR: Failed to parse config file: '' @
                          str_error e @ [LF]\<rparr>) \<and>
         stdout (snd (parse_sso_profiles config_file w)) = stdout w \<and>
         (config_file = None \<longrightarrow>
            main w = (SysExit 1,
                      w\<lparr>stderr := stderr w @ ''ERROR: Failed to parse config file: '' @
                                    str_error e @ [LF]\<rparr>))"
  using assms by (auto simp: parse_sso_profiles_def main_def print_stderr_def Let_def)

theorem parse_error_reported_witness:
  "fs (example_world (Text (file_of_lines [''sso_start_url = x''])))
     (resolve_config_file None (example_world (Text (file_of_lines [''sso_start_url = x''])))) =
     Text (file_of_lines [''sso_start_url = x'']) \<and>
   read (example_world (Text (file_of_lines [''sso_start_url = x''])))
     (resolve_config_file None (example_world (Text (file_of_lines [''sso_start_url = x''])))) =
     Inl (MissingSectionHeaderError ''/home/u/.aws/config'' 1 (''sso_start_url = x'' @ [LF])) \<and>
   (parse_sso_profiles None (example_world (Text (file_of_lines [''sso_start_url = x''])))  =
      (SysExit 1,
       (example_world (Text (file_of_lines [''sso_start_url = x''])))
         \<lparr>stderr := stderr (example_world (Text (file_of_lines [''sso_start_url = x'']))) @
            ''ERROR: Failed to parse config file: '' @
            str_error (MissingSectionHeaderError ''/home/u/.aws/config'' 1
                        (''sso_start_url = x'' @ [LF])) @ [LF]\<rparr>) \<and>
    stdout (snd (parse_sso_profiles None
        (example_world (Text (file_of_lines [''sso_start_url = x''])))))  =
      stdout (example_world (Text (file_of_lines [''sso_start_url = x'']))) \<and>
    (main (example_world (Text (file_of_lines [''sso_start_url = x'']))) =
         (SysExit 1,
          (example_world (Text (file_of_lines [''sso_start_url = x''])))
            \<lparr>stderr := stderr (example_world (Text (file_of_lines [''sso_start_url = x'']))) @
               ''ERROR: Failed to parse config file: '' @
               str_error (MissingSectionHeaderError ''/home/u/.aws/config'' 1
                           (''sso_start_url = x'' @ [LF])) @ [LF]\<rparr>))) \<and>
   stderr (snd (main (example_world (Text (file_of_lines [''sso_start_url = x'']))))) =
     ''ERROR: Failed to parse config file: File contains no section headers.'' @ [LF] @
     ''file: '' @ [SQUOTE] @ ''/home/u/.aws/config'' @ [SQUOTE] @ '', line: 1'' @ [LF] @
     [SQUOTE] @ ''sso_start_url = x'' @ [BACKSLASH] @ ''n'' @ [SQUOTE] @ [LF] \<and>
   stdout (snd (main (example_world (Text (file_of_lines [''sso_start_url = x'']))))) = [] \<and>
   exit_status (fst (main (example_world (Text (file_of_lines [''sso_start_url = x'']))))) = 1"
proof -
  have f: "fs (example_world (Text (file_of_lines [''sso_start_url = x''])))
     (resolve_config_file None (example_world (Text (file_of_lines [''sso_start_url = x''])))) =
     Text (file_of_lines [''sso_start_url = x''])"
    by code_simp
  have r: "read (example_world (Text (file_of_lines [''sso_start_url = x''])))
     (resolve_config_file None (example_world (Text (file_of_lines [''sso_start_url = x''])))) =
     Inl (MissingSectionHeaderError ''/home/u/.aws/config'' 1 (''sso_start_url = x'' @ [LF]))"
    by code_simp
  have e: "stderr (snd (main (example_world (Text (file_of_lines [''sso_start_url = x'']))))) =
     ''ERROR: Failed to parse config file: File contains no section headers.'' @ [LF] @
     ''file: '' @ [SQUOTE] @ ''/home/u/.aws/config'' @ [SQUOTE] @ '', line: 1'' @ [LF] @
     [SQUOTE] @ ''sso_start_url = x'' @ [BACKSLASH] @ ''n'' @ [SQUOTE] @ [LF]"
    "stdout (snd (main (example_world (Text (file_of_lines [''sso_start_url = x'']))))) = []"
    "exit_status (fst (main (example_world (Text (file_of_lines [''sso_start_url = x'']))))) = 1"
    by code_simp+
  from parse_error_reported [OF f r] f r e show ?thesis
    by blast
qed

text \<open>
  Claim C9: \<^verbatim>\<open>parse_sso_profiles\<close> is a pure, deterministic read. A run leaves the file
  system as it was; its result and the text it writes depend only on the file system, the
  environment and the password database, so two processes that agree on these end the
  same way and write the same bytes; and a second run in the world the first one left
  ends as the first did and writes the same bytes again.
\<close>

theorem parse_is_pure_read:
  assumes "fs w2 = fs w1" and "environ w2 = environ w1"
    and "pw_dir_uid w2 = pw_dir_uid w1" and "pw_dir_nam w2 = pw_dir_nam w1"
  shows "fs (snd (parse_sso_profiles config_file w1)) = fs w1 \<and>
         fs (snd (main w1)) = fs w1 \<and>
         fst (parse_sso_profiles config_file w2) = fst (parse_sso_profiles config_file w1) \<and>
         fst (main w2) = fst (main w1) \<and>
         (\<exists>out err.
            stdout (snd (main w1)) = stdout w1 @ out \<and> stdout (snd (main w2)) = stdout w2 @ out \<and>
            stderr (snd (main w1)) = stderr w1 @ err \<and> stderr (snd (main w2)) = stderr w2 @ err) \<and>
         fst (main (snd (main w1))) = fst (main w1) \<and>
         (\<exists>out err.
            stdout (snd (main w1)) = stdout w1 @ out \<and>
            stdout (snd (main (snd (main w1)))) = stdout w1 @ out @ out \<and>
            stderr (snd (main w1)) = stderr w1 @ err \<and>
            stderr (snd (main (snd (main w1)))) = stderr w1 @ err @ err)"
proof -
  from parse_inputs [OF assms, of config_file]
  have 1: "fs (snd (parse_sso_profiles config_file w1)) = fs w1"
    and 3: "fst (parse_sso_profiles config_file w2) = fst (parse_sso_profiles config_file w1)"
    by auto
  from main_inputs [OF assms] obtain r' out err' where
    m': "main w1 = (r', w1\<lparr>stdout := stdout w1 @ out, stderr := stderr w1 @ err'\<rparr>)"
        "main w2 = (r', w2\<lparr>stdout := stdout w2 @ out, stderr := stderr w2 @ err'\<rparr>)"
    by blast
  then have 2: "fs (snd (main w1)) = fs w1" and 4: "fst (main w2) = fst (main w1)"
    and 5: "\<exists>out err.
            stdout (snd (main w1)) = stdout w1 @ out \<and> stdout (snd (main w2)) = stdout w2 @ out \<and>
            stderr (snd (main w1)) = stderr w1 @ err \<and> stderr (snd (main w2)) = stderr w2 @ err"
    by auto
  from m'(1) have e: "fs (snd (main w1)) = fs w1" "environ (snd (main w1)) = environ w1"
    "pw_dir_uid (snd (main w1)) = pw_dir_uid w1" "pw_dir_nam (snd (main w1)) = pw_dir_nam w1"
    by simp_all
  from main_inputs [OF e] obtain r'' out' err'' where
    t: "main w1 = (r'', w1\<lparr>stdout := stdout w1 @ out', stderr := stderr w1 @ err''\<rparr>)"
       "main (snd (main w1)) =
          (r'', (snd (main w1))\<lparr>stdout := stdout (snd (main w1)) @ out',
                                 stderr := stderr (snd (main w1)) @ err''\<rparr>)"
    by blast
  from t(1) have o: "stdout (snd (main w1)) = stdout w1 @ out'"
    "stderr (snd (main w1)) = stderr w1 @ err''" "fst (main w1) = r''"
    by simp_all
  from t(2) o have 6: "fst (main (snd (main w1))) = fst (main w1)"
    by simp
  from t(2) o have "stdout (snd (main w1)) = stdout w1 @ out' \<and>
            stdout (snd (main (snd (main w1)))) = stdout w1 @ out' @ out' \<and>
            stderr (snd (main w1)) = stderr w1 @ err'' \<and>
            stderr (snd (main (snd (main w1)))) = stderr w1 @ err'' @ err''"
    by simp
  then have 7: "\<exists>out err.
            stdout (snd (main w1)) = stdout w1 @ out \<and>
            stdout (snd (main (snd (main w1)))) = stdout w1 @ out @ out \<and>
            stderr (snd (main w1)) = stderr w1 @ err \<and>
            stderr (snd (main (snd (main w1)))) = stderr w1 @ err @ err"
    by blast
  from 1 2 3 4 5 6 7 show ?thesis
    by blast
qed

theorem parse_is_pure_read_witness:
  "fs ((example_world (Text (file_of_lines [''[default]'', ''sso_start_url = https://d''])))
         \<lparr>stdout := ''earlier output''\<rparr>) =
     fs (example_world (Text (file_of_lines [''[default]'', ''sso_start_url = https://d'']))) \<and>
   fst (main ((example_world (Text (file_of_lines [''[default]'', ''sso_start_url = https://d''])))
         \<lparr>stdout := ''earlier output''\<rparr>)) =
     fst (main (example_world (Text (file_of_lines [''[default]'', ''sso_start_url = https://d''])))) \<and>
   fst (main (snd (main
        (example_world (Text (file_of_lines [''[default]'', ''sso_start_url = https://d''])))))) =
     fst (main (example_world (Text (file_of_lines [''[default]'', ''sso_start_url = https://d'']))))"
proof -
  let ?w = "example_world (Text (file_of_lines [''[default]'', ''sso_start_url = https://d'']))"
  have h: "fs (?w\<lparr>stdout := ''earlier output''\<rparr>) = fs ?w"
    "environ (?w\<lparr>stdout := ''earlier output''\<rparr>) = environ ?w"
    "pw_dir_uid (?w\<lparr>stdout := ''earlier output''\<rparr>) = pw_dir_uid ?w"
    "pw_dir_nam (?w\<lparr>stdout := ''earlier output''\<rparr>) = pw_dir_nam ?w"
    by simp_all
  from parse_is_pure_read [OF h, of None] h(1) show ?thesis
    by blast
qed




end
